theory Spec2Isabelle
  imports Main
begin

chapter \<open>The model\<close>

section \<open>Values shared by the agents\<close>

text \<open>
  The TypeScript sources pass untyped bags around (\<^verbatim>\<open>Record<string, unknown>\<close>,
  \<^verbatim>\<open>any\<close>).  A bag is a finite map from keys to JavaScript values; only
  truthiness and key sets are ever inspected by the orchestration code.
\<close>

datatype jsval =
    JUndefined
  | JNull
  | JBool bool
  | JNum int
  | JStr string
  | JArr "jsval list"
  | JObj "(string \<times> jsval) list"

fun truthy :: "jsval \<Rightarrow> bool" where
  "truthy JUndefined = False"
| "truthy JNull = False"
| "truthy (JBool b) = b"
| "truthy (JNum n) = (n \<noteq> 0)"
| "truthy (JStr s) = (s \<noteq> [])"
| "truthy (JArr vs) = True"
| "truthy (JObj kvs) = True"

type_synonym bag = "string \<rightharpoonup> jsval"

text \<open>\<^verbatim>\<open>bag?.key\<close> read for its truthiness: a missing key reads \<^verbatim>\<open>undefined\<close>.\<close>

definition truthyAt :: "bag \<Rightarrow> string \<Rightarrow> bool" where
  "truthyAt b k = (case b k of None \<Rightarrow> False | Some v \<Rightarrow> truthy v)"

text \<open>Object spread \<^verbatim>\<open>{...a, ...b}\<close>: keys of \<open>b\<close> win.\<close>

definition spread :: "bag \<Rightarrow> bag \<Rightarrow> bag" where
  "spread a b = a ++ b"

text \<open>\<^verbatim>\<open>x || {}\<close> and \<^verbatim>\<open>...x\<close> for an optional bag.\<close>

definition orEmpty :: "bag option \<Rightarrow> bag" where
  "orEmpty b = (case b of None \<Rightarrow> Map.empty | Some m \<Rightarrow> m)"

text \<open>
  The names that a lookup \<^verbatim>\<open>object[key]\<close> on an object literal finds on
  \<^verbatim>\<open>Object.prototype\<close> when the literal has no such property of its own.  The value
  found is a function, for \<^verbatim>\<open>__proto__\<close> the prototype itself.
\<close>

definition objectPrototypeKeys :: "string list" where
  "objectPrototypeKeys =
     [''constructor'', ''__defineGetter__'', ''__defineSetter__'', ''hasOwnProperty'',
      ''__lookupGetter__'', ''__lookupSetter__'', ''isPrototypeOf'',
      ''propertyIsEnumerable'', ''toString'', ''valueOf'', ''__proto__'',
      ''toLocaleString'']"

section \<open>Strings and regular expressions of the JavaScript runtime\<close>

text \<open>
  A string is a sequence of UTF-16 code units; the characters here are the code units
  below 256.  On these, \<^verbatim>\<open>\d\<close> and \<^verbatim>\<open>\w\<close> are the ASCII digits and word
  characters, \<^verbatim>\<open>\s\<close> is the six ASCII blanks and the no-break space U+00A0, and
  \<^verbatim>\<open>toLowerCase\<close> maps the letters A to Z and U+00C0 to U+00DE (without the
  multiplication sign U+00D7) to the code unit 32 higher.
\<close>

definition isDigit :: "char \<Rightarrow> bool" where
  "isDigit c = (c \<in> set ''0123456789'')"

definition isSpace :: "char \<Rightarrow> bool" where
  "isSpace c = (c \<in> set [CHR '' '', CHR 0x09, CHR 0x0A, CHR 0x0B, CHR 0x0C, CHR 0x0D, CHR 0xA0])"

definition isUpper :: "char \<Rightarrow> bool" where
  "isUpper c = (c \<in> set ''ABCDEFGHIJKLMNOPQRSTUVWXYZ'')"

definition isLower :: "char \<Rightarrow> bool" where
  "isLower c = (c \<in> set ''abcdefghijklmnopqrstuvwxyz'')"

definition isWord :: "char \<Rightarrow> bool" where
  "isWord c = (isLower c \<or> isUpper c \<or> isDigit c \<or> c = CHR ''_'')"

definition upperLetters :: string where
  "upperLetters =
     ''ABCDEFGHIJKLMNOPQRSTUVWXYZ'' @
     [CHR 0xC0, CHR 0xC1, CHR 0xC2, CHR 0xC3, CHR 0xC4, CHR 0xC5, CHR 0xC6, CHR 0xC7,
      CHR 0xC8, CHR 0xC9, CHR 0xCA, CHR 0xCB, CHR 0xCC, CHR 0xCD, CHR 0xCE, CHR 0xCF,
      CHR 0xD0, CHR 0xD1, CHR 0xD2, CHR 0xD3, CHR 0xD4, CHR 0xD5, CHR 0xD6, CHR 0xD8,
      CHR 0xD9, CHR 0xDA, CHR 0xDB, CHR 0xDC, CHR 0xDD, CHR 0xDE]"

definition lowerLetters :: string where
  "lowerLetters =
     ''abcdefghijklmnopqrstuvwxyz'' @
     [CHR 0xE0, CHR 0xE1, CHR 0xE2, CHR 0xE3, CHR 0xE4, CHR 0xE5, CHR 0xE6, CHR 0xE7,
      CHR 0xE8, CHR 0xE9, CHR 0xEA, CHR 0xEB, CHR 0xEC, CHR 0xED, CHR 0xEE, CHR 0xEF,
      CHR 0xF0, CHR 0xF1, CHR 0xF2, CHR 0xF3, CHR 0xF4, CHR 0xF5, CHR 0xF6, CHR 0xF8,
      CHR 0xF9, CHR 0xFA, CHR 0xFB, CHR 0xFC, CHR 0xFD, CHR 0xFE]"

definition lowerChar :: "char \<Rightarrow> char" where
  "lowerChar c =
     (case map_of (zip upperLetters lowerLetters) c of
        None \<Rightarrow> c
      | Some d \<Rightarrow> d)"

definition toLowerCase :: "string \<Rightarrow> string" where
  "toLowerCase s = map lowerChar s"

text \<open>\<^verbatim>\<open>String.prototype.trim\<close> on such strings: it strips the characters of \<^verbatim>\<open>\s\<close>.\<close>

definition trim :: "string \<Rightarrow> string" where
  "trim s = rev (dropWhile isSpace (rev (dropWhile isSpace s)))"

definition digitVal :: "char \<Rightarrow> nat" where
  "digitVal c = (case map_of (zip ''0123456789'' [0, 1, 2, 3, 4, 5, 6, 7, 8, 9]) c of
                   None \<Rightarrow> 0 | Some d \<Rightarrow> d)"

text \<open>\<^verbatim>\<open>parseInt(s, 10)\<close> and \<^verbatim>\<open>Number(s)\<close> on a string of decimal digits.\<close>

definition parseInt :: "string \<Rightarrow> nat" where
  "parseInt s = foldl (\<lambda>acc c. 10 * acc + digitVal c) 0 s"

text \<open>
  A backtracking matcher in the style of a list of successes.  A matcher state is the text
  already passed (reversed, for \<^verbatim>\<open>\b\<close>), the text still to read and the
  capture groups set so far.  A pattern maps a state to the states after every way of
  matching, in the order in which JavaScript's backtracking tries them, so the head of
  the list is the match JavaScript reports.
\<close>

type_synonym mstate = "string \<times> string \<times> (nat \<times> string) list"

type_synonym rx = "mstate \<Rightarrow> mstate list"

fun rx_lit :: "string \<Rightarrow> rx" where
  "rx_lit s (pre, rest, caps) =
     (if take (length s) rest = s then [(rev s @ pre, drop (length s) rest, caps)] else [])"

fun rx_cls :: "(char \<Rightarrow> bool) \<Rightarrow> rx" where
  "rx_cls P (pre, [], caps) = []"
| "rx_cls P (pre, c # cs, caps) = (if P c then [(c # pre, cs, caps)] else [])"

definition rx_seq :: "rx \<Rightarrow> rx \<Rightarrow> rx" where
  "rx_seq a b st = concat (map b (a st))"

definition rx_alt :: "rx \<Rightarrow> rx \<Rightarrow> rx" where
  "rx_alt a b st = a st @ b st"

text \<open>Greedy \<^verbatim>\<open>a?\<close>: first with \<open>a\<close>, then without.\<close>

definition rx_opt :: "rx \<Rightarrow> rx" where
  "rx_opt a st = a st @ [st]"

text \<open>Greedy \<^verbatim>\<open>[class]*\<close>: the longest run first, then every shorter one.\<close>

fun rx_star :: "(char \<Rightarrow> bool) \<Rightarrow> rx" where
  "rx_star P (pre, [], caps) = [(pre, [], caps)]"
| "rx_star P (pre, c # cs, caps) =
     (if P c then rx_star P (c # pre, cs, caps) @ [(pre, c # cs, caps)]
      else [(pre, c # cs, caps)])"

definition rx_plus :: "(char \<Rightarrow> bool) \<Rightarrow> rx" where
  "rx_plus P = rx_seq (rx_cls P) (rx_star P)"

text \<open>\<^verbatim>\<open>\b\<close>: exactly one of the neighbouring characters is a word character.\<close>

fun rx_wordb :: rx where
  "rx_wordb (pre, rest, caps) =
     (if (case pre of [] \<Rightarrow> False | c # _ \<Rightarrow> isWord c) \<noteq>
         (case rest of [] \<Rightarrow> False | c # _ \<Rightarrow> isWord c)
      then [(pre, rest, caps)] else [])"

fun rx_bol :: rx where
  "rx_bol (pre, rest, caps) = (if pre = [] then [(pre, rest, caps)] else [])"

fun rx_eol :: rx where
  "rx_eol (pre, rest, caps) = (if rest = [] then [(pre, rest, caps)] else [])"

text \<open>Capture group \<open>n\<close>: the text that \<open>a\<close> consumed.\<close>

fun rx_cap :: "nat \<Rightarrow> rx \<Rightarrow> rx" where
  "rx_cap n a (pre, rest, caps) =
     map (\<lambda>(pre', rest', caps').
            (pre', rest', (n, take (length rest - length rest') rest) # caps'))
         (a (pre, rest, caps))"

text \<open>Sequence of several pieces, and alternation of several literals.\<close>

definition rx_seqs :: "rx list \<Rightarrow> rx" where
  "rx_seqs rs = foldr rx_seq rs (\<lambda>st. [st])"

definition rx_lits :: "string list \<Rightarrow> rx" where
  "rx_lits ws = foldr (\<lambda>w r. rx_alt (rx_lit w) r) ws (\<lambda>st. [])"

text \<open>
  \<^verbatim>\<open>text.match(re)\<close> without the \<^verbatim>\<open>g\<close> flag: the first start position,
  from the left, at which the pattern matches; the result is the state after the match,
  with the whole match as group 0.
\<close>

fun rx_search :: "rx \<Rightarrow> string \<Rightarrow> string \<Rightarrow> mstate option" where
  "rx_search r pre [] =
     (case rx_cap 0 r (pre, [], []) of [] \<Rightarrow> None | m # _ \<Rightarrow> Some m)"
| "rx_search r pre (c # cs) =
     (case rx_cap 0 r (pre, c # cs, []) of
        [] \<Rightarrow> rx_search r (c # pre) cs
      | m # _ \<Rightarrow> Some m)"

definition rx_match :: "rx \<Rightarrow> string \<Rightarrow> (nat \<rightharpoonup> string) option" where
  "rx_match r s = map_option (\<lambda>(pre, rest, caps). map_of caps) (rx_search r [] s)"

definition rx_test :: "rx \<Rightarrow> string \<Rightarrow> bool" where
  "rx_test r s = (rx_search r [] s \<noteq> None)"

text \<open>
  The matches of a global pattern, left to right (\<^verbatim>\<open>matchAll\<close>, and the callback
  positions of \<^verbatim>\<open>replace\<close>).  After an empty match the search moves on by one
  character.  The first argument bounds the number of rounds; every round consumes at
  least one character, so \<open>Suc (length s)\<close> rounds always suffice.
\<close>

fun rx_rounds :: "nat \<Rightarrow> rx \<Rightarrow> string \<Rightarrow> string \<Rightarrow> (string \<times> (nat \<rightharpoonup> string)) list \<times> string" where
  "rx_rounds 0 r pre rest = ([], rest)"
| "rx_rounds (Suc n) r pre rest =
     (case rx_search r pre rest of
        None \<Rightarrow> ([], rest)
      | Some (pre', rest', caps) \<Rightarrow>
          (let whole = (case map_of caps 0 of None \<Rightarrow> [] | Some w \<Rightarrow> w);
               skipped = take (length rest - length rest' - length whole) rest;
               (more, tail) =
                 (if whole \<noteq> [] then rx_rounds n r pre' rest'
                  else (case rest' of
                          [] \<Rightarrow> ([], [])
                        | c # cs \<Rightarrow>
                            (case rx_rounds n r (c # pre') cs of
                               ([], t) \<Rightarrow> ([], c # cs)
                             | ((sk, m) # ms, t) \<Rightarrow> ((c # sk, m) # ms, t))))
           in ((skipped, map_of caps) # more, tail)))"


text \<open>\<^verbatim>\<open>s.replace(re, f)\<close> with a global pattern and a callback on the groups.\<close>

definition rx_replace :: "rx \<Rightarrow> ((nat \<rightharpoonup> string) \<Rightarrow> string) \<Rightarrow> string \<Rightarrow> string" where
  "rx_replace r f s =
     (case rx_rounds (Suc (length s)) r [] s of
        (ms, tail) \<Rightarrow> concat (map (\<lambda>(skipped, caps). skipped @ f caps) ms) @ tail)"


section \<open>Dates of the JavaScript runtime\<close>

text \<open>
  A \<^verbatim>\<open>Date\<close> is its time value, in milliseconds since the epoch.  The local-time
  setters are the ones of ECMAScript (\<^verbatim>\<open>MakeTime\<close>, \<^verbatim>\<open>MakeDay\<close>) for a
  zone with the fixed offset \<open>off\<close> from UTC; transitions of daylight-saving time
  are not modelled.  A time value beyond \<open>maxTime\<close> is an invalid date.
\<close>

definition msPerDay :: int where "msPerDay = 86400000"
definition msPerHour :: int where "msPerHour = 3600000"
definition msPerMinute :: int where "msPerMinute = 60000"

definition maxTime :: int where "maxTime = 8640000000000000"

definition validTime :: "int \<Rightarrow> bool" where
  "validTime t = (- maxTime \<le> t \<and> t \<le> maxTime)"

definition localDay :: "int \<Rightarrow> int \<Rightarrow> int" where
  "localDay off t = (t + off) div msPerDay"

definition hourFromTime :: "int \<Rightarrow> int \<Rightarrow> int" where
  "hourFromTime off t = ((t + off) div msPerHour) mod 24"

definition minFromTime :: "int \<Rightarrow> int \<Rightarrow> int" where
  "minFromTime off t = ((t + off) div msPerMinute) mod 60"

text \<open>Seconds and milliseconds of the minute, together.\<close>

definition msOfMinute :: "int \<Rightarrow> int \<Rightarrow> int" where
  "msOfMinute off t = (t + off) mod msPerMinute"

text \<open>\<^verbatim>\<open>d.setSeconds(0, 0)\<close>\<close>

definition setSeconds00 :: "int \<Rightarrow> int \<Rightarrow> int" where
  "setSeconds00 off t =
     localDay off t * msPerDay + hourFromTime off t * msPerHour
       + minFromTime off t * msPerMinute - off"

text \<open>\<^verbatim>\<open>d.setMinutes(m)\<close>\<close>

definition setMinutes :: "int \<Rightarrow> int \<Rightarrow> int \<Rightarrow> int" where
  "setMinutes off m t =
     localDay off t * msPerDay + hourFromTime off t * msPerHour
       + m * msPerMinute + msOfMinute off t - off"

text \<open>\<^verbatim>\<open>d.setHours(h)\<close>\<close>

definition setHours :: "int \<Rightarrow> int \<Rightarrow> int \<Rightarrow> int" where
  "setHours off h t =
     localDay off t * msPerDay + h * msPerHour
       + minFromTime off t * msPerMinute + msOfMinute off t - off"

text \<open>\<^verbatim>\<open>d.setHours(9, 0, 0, 0)\<close>\<close>

definition setHours9 :: "int \<Rightarrow> int \<Rightarrow> int" where
  "setHours9 off t = localDay off t * msPerDay + 9 * msPerHour - off"

text \<open>\<^verbatim>\<open>d.getDay()\<close>: 0 is Sunday; the epoch was a Thursday.\<close>

definition getDay :: "int \<Rightarrow> int \<Rightarrow> int" where
  "getDay off t = (localDay off t + 4) mod 7"

text \<open>\<^verbatim>\<open>d.setDate(d.getDate() + delta)\<close>\<close>

definition addDays :: "int \<Rightarrow> int \<Rightarrow> int" where
  "addDays delta t = t + delta * msPerDay"


section \<open>Agent inputs and outputs (AgentTypes.ts, CollaborationTypes.ts)\<close>

text \<open>An optional field is \<open>None\<close> when it is absent or \<^verbatim>\<open>undefined\<close>.\<close>

record AgentMetadata =
  md_timezone :: "string option"
  md_locale :: "string option"
  md_googleAccessToken :: "string option"

record AgentInput =
  in_userId :: string
  in_sessionId :: string
  in_message :: string
  in_metadata :: "AgentMetadata option"
  in_intent :: "string option"
  in_entities :: "bag option"

datatype action_status = Pending | Done | Failed

record AgentAction =
  act_type :: string
  act_status :: "action_status option"
  act_payload :: "(string \<times> jsval) list option"

datatype followup_type = Question | Confirm | Info

record Followup =
  fu_type :: followup_type
  fu_text :: string

text \<open>
  What a handler returns.  The router returns the same object with its own fields
  (\<open>route\<close>, \<open>intent\<close>, the multi-agent fields) spread in.
\<close>

record AgentOutput =
  out_reply :: string
  out_route :: "string option"
  out_intent :: "string option"
  out_entities :: "bag option"
  out_actions :: "AgentAction list option"
  out_followups :: "Followup list option"
  out_sharedData :: "bag option"
  out_usageTotalTokens :: "int option"
  out_multiAgentRequest :: "bool option"
  out_additionalAgents :: "string list option"

definition emptyOutput :: AgentOutput where
  "emptyOutput =
     \<lparr>out_reply = [], out_route = None, out_intent = None, out_entities = None,
      out_actions = None, out_followups = None, out_sharedData = None,
      out_usageTotalTokens = None, out_multiAgentRequest = None,
      out_additionalAgents = None\<rparr>"

text \<open>A JavaScript string read as a condition, and \<^verbatim>\<open>a || b\<close> on optional strings.\<close>

definition truthyStr :: "string option \<Rightarrow> bool" where
  "truthyStr s = (case s of None \<Rightarrow> False | Some t \<Rightarrow> t \<noteq> [])"

definition orStr :: "string option \<Rightarrow> string \<Rightarrow> string" where
  "orStr s d = (case s of None \<Rightarrow> d | Some t \<Rightarrow> if t = [] then d else t)"

section \<open>Notification policy (notification/types.ts, notification/policy.ts)\<close>

datatype intent_kind = Notify | Remind | FollowUp

fun intentLabel :: "intent_kind \<Rightarrow> string" where
  "intentLabel Notify = ''notify''"
| "intentLabel Remind = ''remind''"
| "intentLabel FollowUp = ''follow_up''"

datatype channel = Sms | Whatsapp

record Recipient =
  rc_phoneE164 :: string
  rc_name :: "string option"

datatype schedule =
    SNow
  | SDatetime string "string option"
  | SRelative string
  | SCron string "string option" "int option"

text \<open>
  A template variable (a string or a number) is represented by the string that
  \<^verbatim>\<open>String(value)\<close> returns, which is all that the policy reads of it.
\<close>

record NotificationIntent =
  ni_intent :: intent_kind
  ni_channel :: channel
  ni_recipients :: "Recipient list"
  ni_schedule :: "schedule option"
  ni_templateKey :: "string option"
  ni_message :: "string option"
  ni_variables :: "(string \<rightharpoonup> string) option"
  ni_timezone :: "string option"

datatype operation = Create | Update | Cancel | Query


record PolicyContext =
  pc_defaultTz :: string
  pc_input :: AgentInput

record Repeat =
  rp_cron :: string
  rp_tz :: "string option"
  rp_limit :: "int option"

record Retry =
  rt_attempts :: nat
  rt_backoffMs :: nat

record NotificationPlan =
  np_channel :: channel
  np_to :: "string list"
  np_body :: string
  np_scheduleAt :: "string option"
  np_repeat :: "Repeat option"
  np_retry :: Retry
  np_idempotencyKey :: string
  np_labels :: "string list option"
  np_policyNotes :: "string list option"

text \<open>The object handed to \<^verbatim>\<open>generateIdempotencyKey\<close>.\<close>

record KeyData =
  kd_to :: "string list"
  kd_body :: string
  kd_scheduleAt :: "string option"
  kd_repeat :: "Repeat option"

text \<open>
  What the policy takes from the runtime: the clock (\<^verbatim>\<open>Date.now()\<close>, read once),
  the offset of local time, \<^verbatim>\<open>Date.prototype.toISOString\<close>,
  \<^verbatim>\<open>String.prototype.trim\<close>, \<^verbatim>\<open>JSON.stringify\<close> on the key data and the
  hexadecimal SHA-256 digest.  Since \<^verbatim>\<open>trim\<close> is taken from the runtime, what is
  proved of the policy holds whatever characters the runtime strips.
\<close>

record PolicyEnv =
  pe_now :: int
  pe_tzOffset :: int
  pe_toISOString :: "int \<Rightarrow> string"
  pe_trim :: "string \<Rightarrow> string"
  pe_stringify :: "KeyData \<Rightarrow> string"
  pe_sha256hex :: "string \<Rightarrow> string"

text \<open>Adds the note when the channel is not \<^verbatim>\<open>sms\<close>; the channel is always \<^verbatim>\<open>sms\<close>.\<close>

definition forceChannel :: "'a NotificationIntent_scheme \<Rightarrow> string list \<Rightarrow> channel \<times> string list" where
  "forceChannel intent notes =
     (Sms, if ni_channel intent \<noteq> Sms then notes @ [''Channel forced to sms.''] else notes)"

text \<open>The recipients of the intent are logged and not used.\<close>

definition pickRecipients :: "'a NotificationIntent_scheme \<Rightarrow> string list" where
  "pickRecipients intent = [''+61412345678'']"

fun showNat :: "nat \<Rightarrow> string" where
  "showNat n =
     (if n < 10 then [''0123456789'' ! n]
      else showNat (n div 10) @ [''0123456789'' ! (n mod 10)])"

declare showNat.simps [simp del]

text \<open>\<^verbatim>\<open>/\{\{(\w+)\}\}/g\<close>\<close>

definition rx_placeholder :: rx where
  "rx_placeholder = rx_seqs [rx_lit ''{{'', rx_cap 1 (rx_plus isWord), rx_lit ''}}'']"

text \<open>The own properties of the object literal \<^verbatim>\<open>templates\<close>.\<close>

definition templates :: "string \<rightharpoonup> string" where
  "templates = [''reminder.simple'' \<mapsto> ''Hi{{name}}, this is your reminder: {{text}}'']"

text \<open>
  \<^verbatim>\<open>templates[key] ?? ''\<close> is the template, an inherited member of the object (a
  function, or the prototype itself) or the empty string.  An inherited member has no
  \<^verbatim>\<open>replace\<close>, so the call throws a \<^verbatim>\<open>TypeError\<close>: \<open>Inl\<close> is its message.
\<close>

definition renderTemplate :: "string \<Rightarrow> (string \<rightharpoonup> string) \<Rightarrow> string + string" where
  "renderTemplate key vars =
     (let substitute = rx_replace rx_placeholder
            (\<lambda>caps. case caps 1 of
                       None \<Rightarrow> []
                     | Some k \<Rightarrow> (case vars k of None \<Rightarrow> [] | Some v \<Rightarrow> v))
      in case templates key of
           Some tpl \<Rightarrow> Inr (substitute tpl)
         | None \<Rightarrow>
             if key \<in> set objectPrototypeKeys then Inl ''tpl.replace is not a function''
             else Inr (substitute []))"

text \<open>The body and the notes after it; \<open>Inl\<close> is the error that \<open>renderTemplate\<close> throws.\<close>

definition pickBody ::
  "PolicyEnv \<Rightarrow> 'a NotificationIntent_scheme \<Rightarrow> string list \<Rightarrow> PolicyContext \<Rightarrow>
   string + string \<times> string list" where
  "pickBody env intent notes ctx =
     (let direct = pe_trim env (case ni_message intent of None \<Rightarrow> [] | Some m \<Rightarrow> m)
      in if direct \<noteq> [] then Inr (direct, notes)
         else if truthyStr (ni_templateKey intent) then
           (let key = the (ni_templateKey intent)
            in case renderTemplate key
                      (case ni_variables intent of None \<Rightarrow> Map.empty | Some vs \<Rightarrow> vs) of
                 Inl thrown \<Rightarrow> Inl thrown
               | Inr rendered \<Rightarrow>
                   Inr (pe_trim env rendered,
                        notes @ [''Template('' @ key @ '') has been applied.'']))
         else
           (let fallback = pe_trim env (in_message (pc_input ctx))
            in if fallback \<noteq> [] then
                 Inr (fallback, notes @ [''Using original message as fallback.''])
               else Inr ([], notes)))"

text \<open>\<^verbatim>\<open>intent.timezone || ctx.input.metadata?.timezone || ctx.defaultTz\<close>\<close>

definition pickTimezone :: "'a NotificationIntent_scheme \<Rightarrow> PolicyContext \<Rightarrow> string" where
  "pickTimezone intent ctx =
     orStr (ni_timezone intent)
       (orStr (case in_metadata (pc_input ctx) of None \<Rightarrow> None | Some md \<Rightarrow> md_timezone md)
          (pc_defaultTz ctx))"


text \<open>\<^verbatim>\<open>/^P(?:(\d+)D)?(?:T(?:(\d+)H)?(?:(\d+)M)?)?$/\<close>\<close>

definition rx_duration :: rx where
  "rx_duration =
     rx_seqs [rx_bol, rx_lit ''P'',
       rx_opt (rx_seqs [rx_cap 1 (rx_plus isDigit), rx_lit ''D'']),
       rx_opt (rx_seqs [rx_lit ''T'',
                 rx_opt (rx_seqs [rx_cap 2 (rx_plus isDigit), rx_lit ''H'']),
                 rx_opt (rx_seqs [rx_cap 3 (rx_plus isDigit), rx_lit ''M''])]),
       rx_eol]"

text \<open>\<open>None\<close> is the thrown \<^verbatim>\<open>Error('invalid duration')\<close>.\<close>

definition durationToMs :: "string \<Rightarrow> int option" where
  "durationToMs isoStr =
     (case rx_match rx_duration isoStr of
        None \<Rightarrow> None
      | Some m \<Rightarrow>
          (let days = (case m 1 of None \<Rightarrow> 0 | Some d \<Rightarrow> int (parseInt d));
               hours = (case m 2 of None \<Rightarrow> 0 | Some h \<Rightarrow> int (parseInt h));
               mins = (case m 3 of None \<Rightarrow> 0 | Some mi \<Rightarrow> int (parseInt mi))
           in Some (((days * 24 + hours) * 60 + mins) * 60 * 1000)))"

text \<open>\<^verbatim>\<open>/\bat\s+(\d{1,2})(?::(\d{2}))?\s*(am|pm)?\b/\<close>\<close>

definition rx_timeAt :: rx where
  "rx_timeAt =
     rx_seqs [rx_wordb, rx_lit ''at'', rx_plus isSpace,
       rx_cap 1 (rx_seq (rx_cls isDigit) (rx_opt (rx_cls isDigit))),
       rx_opt (rx_seq (rx_lit '':'') (rx_cap 2 (rx_seq (rx_cls isDigit) (rx_cls isDigit)))),
       rx_star isSpace,
       rx_opt (rx_cap 3 (rx_lits [''am'', ''pm''])),
       rx_wordb]"

text \<open>\<^verbatim>\<open>/\btomorrow\b/\<close>\<close>

definition rx_tomorrow :: rx where
  "rx_tomorrow = rx_seqs [rx_wordb, rx_lit ''tomorrow'', rx_wordb]"

text \<open>\<^verbatim>\<open>/\bin\s+(\d+)\s*(minute|minutes|hour|hours|day|days)\b/\<close>\<close>

definition rx_relative :: rx where
  "rx_relative =
     rx_seqs [rx_wordb, rx_lit ''in'', rx_plus isSpace, rx_cap 1 (rx_plus isDigit),
       rx_star isSpace,
       rx_cap 2 (rx_lits [''minute'', ''minutes'', ''hour'', ''hours'', ''day'', ''days'']),
       rx_wordb]"

text \<open>\<^verbatim>\<open>/\bnext\s+(monday|tuesday|wednesday|thursday|friday|saturday|sunday)\b/\<close>\<close>

definition rx_nextWeekday :: rx where
  "rx_nextWeekday =
     rx_seqs [rx_wordb, rx_lit ''next'', rx_plus isSpace,
       rx_cap 1 (rx_lits [''monday'', ''tuesday'', ''wednesday'', ''thursday'', ''friday'',
                          ''saturday'', ''sunday'']),
       rx_wordb]"

definition weekdayMap :: "string \<rightharpoonup> int" where
  "weekdayMap =
     [''sunday'' \<mapsto> 0, ''monday'' \<mapsto> 1, ''tuesday'' \<mapsto> 2, ''wednesday'' \<mapsto> 3,
      ''thursday'' \<mapsto> 4, ''friday'' \<mapsto> 5, ''saturday'' \<mapsto> 6]"

text \<open>The hour and the minute that the closure \<^verbatim>\<open>extractTime\<close> reads off the time match.\<close>

definition matchedHour :: "(nat \<rightharpoonup> string) \<Rightarrow> int" where
  "matchedHour m =
     (let hourRaw = int (parseInt (orStr (m 1) ''0''));
          meridiem = m 3
      in if meridiem = Some ''am'' then hourRaw mod 12
         else if meridiem = Some ''pm'' then hourRaw mod 12 + 12
         else hourRaw)"

definition matchedMinute :: "(nat \<rightharpoonup> string) \<Rightarrow> int" where
  "matchedMinute m = int (parseInt (orStr (m 2) ''0''))"

definition extractTime :: "int \<Rightarrow> (nat \<rightharpoonup> string) option \<Rightarrow> int \<Rightarrow> int" where
  "extractTime off timeMatch base =
     (case timeMatch of
        None \<Rightarrow> base
      | Some m \<Rightarrow>
          setHours off (matchedHour m)
            (setMinutes off (matchedMinute m) (setSeconds00 off base)))"

definition nextWeekday :: "int \<Rightarrow> int \<Rightarrow> int \<Rightarrow> int" where
  "nextWeekday off fromD targetWeekday =
     (let curr = getDay off fromD;
          delta = targetWeekday - curr;
          delta' = (if delta \<le> 0 then delta + 7 else delta)
      in addDays delta' fromD)"

text \<open>
  The result is the time value of the returned \<^verbatim>\<open>Date\<close> (\<open>None\<close> for
  \<^verbatim>\<open>null\<close>); a value that is not a \<open>validTime\<close> stands for an invalid date.
\<close>

definition inferDateTimeFromMessage :: "int \<Rightarrow> int \<Rightarrow> string \<Rightarrow> int option" where
  "inferDateTimeFromMessage off now message =
     (let text = toLowerCase message;
          timeMatch = rx_match rx_timeAt text
      in if rx_test rx_tomorrow text then
           (let base = now + 24 * 60 * 60 * 1000;
                scheduled = extractTime off timeMatch base
            in Some (if timeMatch = None then setHours9 off scheduled else scheduled))
         else
           (case rx_match rx_relative text of
              Some rel \<Rightarrow>
                (let amount = int (parseInt (orStr (rel 1) ''0''));
                     unit = (case rel 2 of None \<Rightarrow> [] | Some u \<Rightarrow> u);
                     ms = (if rx_test (rx_lit ''minute'') unit then amount * 60 * 1000
                           else if rx_test (rx_lit ''hour'') unit then amount * 60 * 60 * 1000
                           else if rx_test (rx_lit ''day'') unit then amount * 24 * 60 * 60 * 1000
                           else 0)
                 in Some (now + ms))
            | None \<Rightarrow>
                (case rx_match rx_nextWeekday text of
                   Some weekdayMatch \<Rightarrow>
                     (let target = (case weekdayMap
                                           (case weekdayMatch 1 of None \<Rightarrow> [] | Some w \<Rightarrow> w) of
                                      None \<Rightarrow> 0 | Some n \<Rightarrow> n);
                          base = nextWeekday off now target;
                          scheduled = extractTime off timeMatch base
                      in Some (if timeMatch = None then setHours9 off scheduled else scheduled))
                 | None \<Rightarrow>
                     (if timeMatch \<noteq> None then
                        (let todayAt = extractTime off timeMatch now
                         in if todayAt > now then Some todayAt
                            else Some (extractTime off timeMatch (now + 24 * 60 * 60 * 1000)))
                      else None))))"

text \<open>
  The result is \<^verbatim>\<open>{scheduleAt?, repeat?, extraNotes}\<close>.  \<^verbatim>\<open>toISOString\<close> throws on
  an invalid date; in the \<^verbatim>\<open>relative\<close> branch the \<^verbatim>\<open>catch\<close> then returns the
  notes alone, with the note that was already pushed.
\<close>

definition pickSchedule ::
  "PolicyEnv \<Rightarrow> 'a NotificationIntent_scheme \<Rightarrow> string \<Rightarrow> PolicyContext \<Rightarrow>
   string option \<times> Repeat option \<times> string list" where
  "pickSchedule env intent tz ctx =
     (case ni_schedule intent of
        Some (SDatetime isoStr z) \<Rightarrow> (Some isoStr, None, [])
      | Some (SRelative d) \<Rightarrow>
          (case durationToMs d of
             None \<Rightarrow> (None, None, [])
           | Some ms \<Rightarrow>
               if validTime (pe_now env + ms) then
                 (Some (pe_toISOString env (pe_now env + ms)), None,
                  [''Relative schedule converted to absolute time.''])
               else (None, None, [''Relative schedule converted to absolute time.'']))
      | Some (SCron expr z limit) \<Rightarrow>
          (None, Some \<lparr>rp_cron = expr, rp_tz = Some tz, rp_limit = limit\<rparr>, [])
      | _ \<Rightarrow>
          (case inferDateTimeFromMessage (pe_tzOffset env) (pe_now env)
                  (in_message (pc_input ctx)) of
             Some inferred \<Rightarrow>
               if validTime inferred \<and> inferred > pe_now env then
                 (Some (pe_toISOString env inferred), None,
                  [''Natural language schedule inferred from utterance.''])
               else (Some (pe_toISOString env (pe_now env)), None, [])
           | None \<Rightarrow> (Some (pe_toISOString env (pe_now env)), None, [])))"

definition defaultRetry :: Retry where
  "defaultRetry = \<lparr>rt_attempts = 3, rt_backoffMs = 2000\<rparr>"

text \<open>\<^verbatim>\<open>createHash('sha256').update(JSON.stringify(data)).digest('hex').slice(0, 32)\<close>\<close>

definition generateIdempotencyKey :: "PolicyEnv \<Rightarrow> KeyData \<Rightarrow> string" where
  "generateIdempotencyKey env data = take 32 (pe_sha256hex env (pe_stringify env data))"

text \<open>The arguments of \<^verbatim>\<open>buildPlan\<close>, in the order of the source's object.\<close>

definition buildPlan ::
  "channel \<Rightarrow> string list \<Rightarrow> string \<Rightarrow> string option \<Rightarrow> Repeat option \<Rightarrow> Retry \<Rightarrow> string \<Rightarrow>
   string option \<Rightarrow> string list \<Rightarrow> NotificationPlan" where
  "buildPlan ch to body scheduleAt repeat retry idempotencyKey label notes =
     \<lparr>np_channel = ch, np_to = to, np_body = body,
      np_scheduleAt = (if truthyStr scheduleAt then scheduleAt else None),
      np_repeat = repeat,
      np_retry = retry,
      np_idempotencyKey = idempotencyKey,
      np_labels = (if truthyStr label then Some [the label] else None),
      np_policyNotes = (if notes \<noteq> [] then Some notes else None)\<rparr>"

text \<open>
  The outcomes of \<^verbatim>\<open>evaluatePolicy\<close>: \<open>Inr\<close> is the returned
  \<^verbatim>\<open>{ok: true, plan, notes}\<close>, \<open>Inl (NotOk error)\<close> the returned
  \<^verbatim>\<open>{ok: false, error}\<close>, and \<open>Inl (Thrown message)\<close> an error that escapes the
  function.
\<close>

datatype policy_error = NotOk string | Thrown string

definition evaluatePolicy ::
  "PolicyEnv \<Rightarrow> 'a NotificationIntent_scheme \<Rightarrow> PolicyContext \<Rightarrow>
   policy_error + NotificationPlan \<times> string list" where
  "evaluatePolicy env intent ctx =
     (let (ch, notes1) = forceChannel intent [];
          to = pickRecipients intent
      in if length to = 0 then Inl (NotOk ''No valid recipient phone numbers found.'')
         else
           (case pickBody env intent notes1 ctx of
              Inl thrown \<Rightarrow> Inl (Thrown thrown)
            | Inr (body, notes2) \<Rightarrow>
                if length body = 0 then Inl (NotOk ''Message body is empty.'')
                else
                  (let tz = pickTimezone intent ctx;
                       (scheduleAt, repeat, extraNotes) = pickSchedule env intent tz ctx;
                       notes = notes2 @ extraNotes;
                       retry = defaultRetry;
                       idempotencyKey = generateIdempotencyKey env
                         \<lparr>kd_to = to, kd_body = body, kd_scheduleAt = scheduleAt,
                          kd_repeat = repeat\<rparr>;
                       plan = buildPlan ch to body
                         (if truthyStr scheduleAt then scheduleAt else None)
                         repeat retry idempotencyKey
                         (Some (intentLabel (ni_intent intent))) notes
                   in Inr (plan, notes))))"


section \<open>Scheduling a plan (NotificationAgent.ts, tools/notification.ts)\<close>



definition defaultTz :: string where
  "defaultTz = ''Australia/Sydney''"








section \<open>Plan matching (tools/notification.ts)\<close>











section \<open>Collaboration rules and strategy selection (SimpleAgentGraph.ts)\<close>

datatype priority = High | Medium | Low

record CollaborationRule =
  cr_name :: string
  cr_priority :: priority
  cr_cost :: nat
  cr_latency :: nat
  cr_targetAgent :: string
  cr_shouldExecute :: "bag \<Rightarrow> string option \<Rightarrow> string option \<Rightarrow> bool"

datatype strategy_type = Sequential | Parallel | WinnerTakeAll | AllFinishMerge

record ExecutionStrategy =
  es_type :: strategy_type
  es_reason :: string

text \<open>\<^verbatim>\<open>new Set(rules.map(r => r.priority)).size > 1\<close>\<close>

definition hasMixedPriorities :: "CollaborationRule list \<Rightarrow> bool" where
  "hasMixedPriorities rules = (length (remdups (map cr_priority rules)) > 1)"

text \<open>
  \<^verbatim>\<open>if (rules.length <= 1) return false;
  const firstPriority = rules[0]?.priority;
  return rules.every(r => r.priority === firstPriority);\<close>
\<close>

definition hasSamePriority :: "CollaborationRule list \<Rightarrow> bool" where
  "hasSamePriority rules =
     (case rules of
        [] \<Rightarrow> False
      | [r] \<Rightarrow> False
      | r # rs \<Rightarrow> list_all (\<lambda>q. cr_priority q = cr_priority r) rules)"

text \<open>The \<open>state\<close> argument of the source is never read by the selection.\<close>

definition determineExecutionStrategy :: "CollaborationRule list \<Rightarrow> 's \<Rightarrow> ExecutionStrategy" where
  "determineExecutionStrategy rules state =
     (if length rules = 1 then
        \<lparr>es_type = Sequential, es_reason = ''Single rule execution''\<rparr>
      else if hasMixedPriorities rules then
        \<lparr>es_type = WinnerTakeAll, es_reason = ''Mixed priority rules''\<rparr>
      else if hasSamePriority rules then
        \<lparr>es_type = AllFinishMerge, es_reason = ''Same priority rules''\<rparr>
      else
        \<lparr>es_type = Sequential, es_reason = ''Default sequential execution''\<rparr>)"

text \<open>The fixed, ordered rule list of the graph.\<close>

definition createNotificationToAppointmentRule :: CollaborationRule where
  "createNotificationToAppointmentRule =
     \<lparr>cr_name = ''notification-to-appointment'', cr_priority = High, cr_cost = 1,
      cr_latency = 1000, cr_targetAgent = ''appointment'',
      cr_shouldExecute = (\<lambda>sharedData intent currentAgent.
         currentAgent = Some ''notification'' \<and>
         truthyAt sharedData ''notificationSchedule'' \<and>
         \<not> truthyAt sharedData ''appointmentSchedule'')\<rparr>"

definition createAppointmentToReportRule :: CollaborationRule where
  "createAppointmentToReportRule =
     \<lparr>cr_name = ''appointment-to-report'', cr_priority = Low, cr_cost = 2,
      cr_latency = 2000, cr_targetAgent = ''report'',
      cr_shouldExecute = (\<lambda>sharedData intent currentAgent.
         currentAgent = Some ''appointment'' \<and>
         truthyAt sharedData ''appointmentSchedule'' \<and>
         \<not> truthyAt sharedData ''reportSchedule'')\<rparr>"

definition getCollaborationRules :: "CollaborationRule list" where
  "getCollaborationRules = [createNotificationToAppointmentRule, createAppointmentToReportRule]"

section \<open>Intent routing and the router agent (intent-routing.ts, RouterAgent.ts)\<close>

definition FALLBACK_INTENT :: string where
  "FALLBACK_INTENT = ''health.advice''"

definition INTENT_TO_ROUTE :: "string \<rightharpoonup> string" where
  "INTENT_TO_ROUTE =
     [''appointment.book'' \<mapsto> ''appointment'',
      ''appointment.check'' \<mapsto> ''appointment'',
      ''report.cognitive.weekly'' \<mapsto> ''report'',
      ''report.generate'' \<mapsto> ''report'',
      ''report.summary'' \<mapsto> ''report'',
      ''report.status'' \<mapsto> ''report'',
      ''health.advice'' \<mapsto> ''gp'',
      ''notification.schedule'' \<mapsto> ''notification'']"

text \<open>
  \<^verbatim>\<open>INTENT_TO_ROUTE[intent] ?? 'gp'\<close> is a route or, for an intent that is the name
  of a member of \<^verbatim>\<open>Object.prototype\<close>, that member.
\<close>

datatype route = Route string | Member string

definition resolveRoute :: "string \<Rightarrow> route" where
  "resolveRoute intent =
     (case INTENT_TO_ROUTE intent of
        Some r \<Rightarrow> Route r
      | None \<Rightarrow> if intent \<in> set objectPrototypeKeys then Member intent else Route ''gp'')"

text \<open>
  The route as a string.  A member of \<^verbatim>\<open>Object.prototype\<close> stands in the output
  as the text that \<^verbatim>\<open>String\<close> and template literals make of it; no handler is
  registered under such a name.
\<close>

fun routeString :: "route \<Rightarrow> string" where
  "routeString (Route r) = r"
| "routeString (Member k) =
     (if k = ''__proto__'' then ''[object Object]''
      else ''function '' @ (if k = ''constructor'' then ''Object'' else k)
           @ ''() { [native code] }'')"

record GuardInput =
  gi_intent :: string
  gi_entities :: "bag option"
  gi_metadata :: "AgentMetadata option"

record BlockResult =
  br_blocked :: bool
  br_reason :: "string option"

text \<open>\<^verbatim>\<open>/^appointment\./\<close>\<close>

definition rx_appointment :: rx where
  "rx_appointment = rx_seqs [rx_bol, rx_lit ''appointment.'']"

text \<open>
  \<^verbatim>\<open>!metadata || !metadata.googleAccessToken ||
  metadata.googleAccessToken === 'test-token'\<close>
\<close>

definition lacksToken :: "AgentMetadata option \<Rightarrow> bool" where
  "lacksToken metadata =
     (case metadata of
        None \<Rightarrow> True
      | Some md \<Rightarrow>
          \<not> truthyStr (md_googleAccessToken md) \<or> md_googleAccessToken md = Some ''test-token'')"

definition appointmentGuard :: "GuardInput \<Rightarrow> BlockResult" where
  "appointmentGuard g =
     (if rx_test rx_appointment (gi_intent g) \<and> lacksToken (gi_metadata g) then
        \<lparr>br_blocked = True,
         br_reason = Some ''Google Calendar access is required to manage appointments.''\<rparr>
      else \<lparr>br_blocked = False, br_reason = None\<rparr>)"

definition BLOCK_RULES :: "(GuardInput \<Rightarrow> BlockResult) list" where
  "BLOCK_RULES = [appointmentGuard]"

text \<open>What \<^verbatim>\<open>RouterAgent.classify\<close> returns; it catches its own errors.\<close>

record Classification =
  cl_intent :: string
  cl_entities :: "bag option"
  cl_usageTotalTokens :: "int option"
  cl_multiAgentRequest :: "bool option"
  cl_additionalAgents :: "string list option"

text \<open>
  Calls that the orchestration makes and that the claims speak of: the \<open>process\<close> of
  a registered handler, and the predicate of a collaboration rule.
\<close>

datatype call = Invoked string AgentInput | Evaluated string

text \<open>
  A handler: its \<open>process\<close> returns an output or throws (\<open>Inl\<close>, with the message
  of the error), and makes the calls listed.  Every thrown value is an \<^verbatim>\<open>Error\<close>,
  and \<open>errString\<close> is \<^verbatim>\<open>String(error)\<close>.
\<close>

type_synonym agent = "AgentInput \<Rightarrow> (string + AgentOutput) \<times> call list"

definition errString :: "string \<Rightarrow> string" where
  "errString m = (if m = [] then ''Error'' else ''Error: '' @ m)"

text \<open>The first guard that blocks, in the order of the list.\<close>

definition firstBlock :: "GuardInput \<Rightarrow> BlockResult option" where
  "firstBlock g = find br_blocked (map (\<lambda>guard. guard g) BLOCK_RULES)"

text \<open>
  The object spread \<^verbatim>\<open>{route, intent, ...usagePart, ...multiAgentPart, ...result}\<close>:
  a field that the handler's result defines wins.
\<close>

definition routedOutput :: "string \<Rightarrow> Classification \<Rightarrow> AgentOutput \<Rightarrow> AgentOutput" where
  "routedOutput route c result =
     result
       \<lparr>out_route := (case out_route result of None \<Rightarrow> Some route | Some r \<Rightarrow> Some r),
        out_intent := (case out_intent result of None \<Rightarrow> Some (cl_intent c) | Some i \<Rightarrow> Some i),
        out_usageTotalTokens :=
          (case out_usageTotalTokens result of
             None \<Rightarrow> cl_usageTotalTokens c
           | Some n \<Rightarrow> Some n),
        out_multiAgentRequest :=
          (case out_multiAgentRequest result of
             None \<Rightarrow> (if cl_multiAgentRequest c = Some True then Some True else None)
           | Some b \<Rightarrow> Some b),
        out_additionalAgents :=
          (case out_additionalAgents result of
             None \<Rightarrow> cl_additionalAgents c
           | Some a \<Rightarrow> Some a)\<rparr>"

text \<open>
  \<^verbatim>\<open>RouterAgent.process\<close>, for a classifier and a registry of handlers.  It never
  throws: an error of the target handler is answered in the \<^verbatim>\<open>catch\<close>.
\<close>

definition RouterAgent_process ::
  "(string \<Rightarrow> Classification) \<Rightarrow> (string \<rightharpoonup> agent) \<Rightarrow> AgentInput \<Rightarrow> AgentOutput \<times> call list" where
  "RouterAgent_process classify registry input =
     (let c = classify (in_message input)
      in case firstBlock \<lparr>gi_intent = cl_intent c, gi_entities = cl_entities c,
                           gi_metadata = in_metadata input\<rparr> of
           Some res \<Rightarrow>
             (emptyOutput
                \<lparr>out_route := Some ''none'', out_intent := Some ''blocked'',
                 out_reply := orStr (br_reason res) ''Request is blocked by guard rule.''\<rparr>,
              [])
         | None \<Rightarrow>
             (let route = resolveRoute (cl_intent c);
                  name = (case route of
                            Route r \<Rightarrow> if registry r \<noteq> None then r else ''gp''
                          | Member k \<Rightarrow> ''gp'')
              in case registry name of
                   None \<Rightarrow>
                     (emptyOutput
                        \<lparr>out_route := Some ''gp'', out_intent := Some (cl_intent c),
                         out_reply := ''I'' @ [CHR 0x27] @ ''m not sure how to help with that yet.''\<rparr>,
                      [])
                 | Some target \<Rightarrow>
                     (let handoff = input\<lparr>in_intent := Some (cl_intent c),
                                           in_entities := cl_entities c\<rparr>
                      in case target handoff of
                           (Inr result, calls) \<Rightarrow>
                             (routedOutput (routeString route) c result,
                              Invoked name handoff # calls)
                         | (Inl err, calls) \<Rightarrow>
                             (emptyOutput
                                \<lparr>out_route := Some ''gp'', out_intent := Some ''error'',
                                 out_reply :=
                                   ''I'' @ [CHR 0x27] @ ''m sorry, I encountered an error while ''
                                   @ ''processing your request. Please try again.'',
                                 out_actions := Some
                                   [\<lparr>act_type = ''error'', act_status = Some Failed,
                                     act_payload = Some
                                       [(''reason'', JStr ''ROUTER_PROCESSING_ERROR''),
                                        (''details'',
                                         JStr (if err \<noteq> [] then err else errString err))]\<rparr>]\<rparr>,
                              Invoked name handoff # calls))))"

section \<open>The orchestration graph: state (AgentGraphTypes.ts)\<close>

datatype message_type = MRequest | MResponse | MNotification | MQuery

datatype message_content =
    RouterRequest "string option" "bag option" string
  | HandlerResponse AgentOutput

record AgentMessage =
  msg_from :: string
  msg_to :: string
  msg_type :: message_type
  msg_content :: message_content
  msg_timestamp :: int
  msg_messageId :: string

record TimelineEntry =
  tl_step :: string
  tl_ms :: int
  tl_intent :: "string option"
  tl_route :: "string option"
  tl_usage :: "int option"

record GraphContext =
  cx_intent :: "string option"
  cx_entities :: "bag option"
  cx_sharedData :: "bag option"
  cx_multiAgentRequest :: "bool option"
  cx_additionalAgents :: "string list option"

record AgentGraphState =
  gs_userId :: string
  gs_sessionId :: string
  gs_originalMessage :: string
  gs_metadata :: "AgentMetadata option"
  gs_messages :: "AgentMessage list"
  gs_currentAgent :: "string option"
  gs_finalOutput :: "AgentOutput option"
  gs_context :: GraphContext
  gs_error :: "string option"
  gs_timeline :: "TimelineEntry list option"

text \<open>
  What the graph takes from outside: the router's classifier and the four specialised
  handlers (each a function of its input: \<open>Inl\<close> is the message of the error that
  \<open>process\<close> throws), the verdict of the language model on whether a message is a
  report candidate (\<open>None\<close> when the call fails or answers without a boolean; the
  model runs at temperature 0 and is taken as a function of the message), the clock
  and the id generator behind the A2A messages, and the elapsed time of each stage.
\<close>

record GraphEnv =
  ge_classify :: "string \<Rightarrow> Classification"
  ge_handlers :: "string \<Rightarrow> AgentInput \<Rightarrow> string + AgentOutput"
  ge_llmIngest :: "string \<Rightarrow> bool option"
  ge_date :: int
  ge_uuid :: string
  ge_elapsed :: "string \<Rightarrow> int"

section \<open>The orchestration graph: stages (SimpleAgentGraph.ts)\<close>

definition specialized :: "GraphEnv \<Rightarrow> string \<Rightarrow> agent" where
  "specialized env name input = (ge_handlers env name input, [])"

text \<open>The handlers that \<^verbatim>\<open>initializeAgents\<close> registers with the router.\<close>

definition routerRegistry :: "GraphEnv \<Rightarrow> string \<rightharpoonup> agent" where
  "routerRegistry env name =
     (if name \<in> set [''appointment'', ''gp'', ''notification'', ''report'']
      then Some (specialized env name) else None)"

definition routerAgent :: "GraphEnv \<Rightarrow> agent" where
  "routerAgent env input =
     (case RouterAgent_process (ge_classify env) (routerRegistry env) input of
        (out, calls) \<Rightarrow> (Inr out, calls))"

text \<open>The map \<^verbatim>\<open>this.agents\<close> after \<^verbatim>\<open>initializeAgents\<close>.\<close>

definition initializeAgents :: "GraphEnv \<Rightarrow> string \<rightharpoonup> agent" where
  "initializeAgents env name =
     (if name = ''router'' then Some (routerAgent env) else routerRegistry env name)"

text \<open>\<^verbatim>\<open>validateContext({sharedData: {}})\<close> parses to the same object.\<close>

definition createInitialState :: "AgentInput \<Rightarrow> AgentGraphState" where
  "createInitialState input =
     \<lparr>gs_userId = in_userId input, gs_sessionId = in_sessionId input,
      gs_originalMessage = in_message input, gs_metadata = in_metadata input,
      gs_messages = [], gs_currentAgent = None, gs_finalOutput = None,
      gs_context = \<lparr>cx_intent = None, cx_entities = None, cx_sharedData = Some Map.empty,
                     cx_multiAgentRequest = None, cx_additionalAgents = None\<rparr>,
      gs_error = None, gs_timeline = None\<rparr>"

definition createTimelineEntry ::
  "string \<Rightarrow> int \<Rightarrow> string option \<Rightarrow> string option \<Rightarrow> int option \<Rightarrow> TimelineEntry" where
  "createTimelineEntry step ms intent route usage =
     \<lparr>tl_step = step, tl_ms = ms,
      tl_intent = (if truthyStr intent then intent else None),
      tl_route = (if truthyStr route then route else None),
      tl_usage = usage\<rparr>"

definition extractUsageFromResult :: "AgentGraphState \<Rightarrow> int option" where
  "extractUsageFromResult result =
     (case gs_finalOutput result of None \<Rightarrow> None | Some out \<Rightarrow> out_usageTotalTokens out)"

definition handleProcessingError :: "string \<Rightarrow> AgentGraphState \<Rightarrow> AgentGraphState" where
  "handleProcessingError err initialState =
     initialState
       \<lparr>gs_error := Some (''Processing error: '' @ errString err),
        gs_finalOutput := Some
          (emptyOutput
             \<lparr>out_reply := ''I'' @ [CHR 0x27] @ ''m sorry, I encountered an error. Please try again.'',
              out_actions := Some [\<lparr>act_type = ''error'', act_status = Some Failed,
                                     act_payload = None\<rparr>]\<rparr>)\<rparr>"

definition createRouterMessage :: "GraphEnv \<Rightarrow> AgentOutput \<Rightarrow> string \<Rightarrow> AgentMessage" where
  "createRouterMessage env result originalMessage =
     \<lparr>msg_from = ''router'', msg_to = orStr (out_route result) ''chat'', msg_type = MRequest,
      msg_content = RouterRequest (out_intent result) (out_entities result) originalMessage,
      msg_timestamp = ge_date env, msg_messageId = ge_uuid env\<rparr>"

definition handleRouterError :: "string \<Rightarrow> AgentGraphState \<Rightarrow> AgentGraphState" where
  "handleRouterError err state =
     state\<lparr>gs_error := Some (''Router error: '' @ errString err),
           gs_currentAgent := Some ''error_handler''\<rparr>"

definition graphInput :: "AgentGraphState \<Rightarrow> string option \<Rightarrow> bag option \<Rightarrow> AgentInput" where
  "graphInput state intent entities =
     \<lparr>in_userId = gs_userId state, in_sessionId = gs_sessionId state,
      in_message = gs_originalMessage state, in_metadata = gs_metadata state,
      in_intent = intent, in_entities = entities\<rparr>"

definition executeRouter ::
  "(string \<rightharpoonup> agent) \<Rightarrow> GraphEnv \<Rightarrow> AgentGraphState \<Rightarrow> AgentGraphState \<times> call list" where
  "executeRouter agents env state =
     (case agents ''router'' of
        None \<Rightarrow> (handleRouterError ''Router agent not found'' state, [])
      | Some router \<Rightarrow>
          (let input = graphInput state None None
           in case router input of
                (Inl err, calls) \<Rightarrow> (handleRouterError err state, Invoked ''router'' input # calls)
              | (Inr result, calls) \<Rightarrow>
                  (state
                     \<lparr>gs_currentAgent := Some (orStr (out_route result) ''chat''),
                      gs_context := (gs_context state)
                        \<lparr>cx_intent := out_intent result,
                         cx_entities := out_entities result,
                         cx_multiAgentRequest := out_multiAgentRequest result,
                         cx_additionalAgents := out_additionalAgents result\<rparr>,
                      gs_messages := gs_messages state
                        @ [createRouterMessage env result (gs_originalMessage state)],
                      gs_finalOutput := Some result\<rparr>,
                   Invoked ''router'' input # calls)))"

text \<open>
  \<^verbatim>\<open>/\b(cognitive|memory|brain|focus|mental|mood|anxiety|stress|physical|exercise|sleep|pain|bp|blood
  pressure|heart|summary|report|status)\b/\<close>
\<close>

definition rx_reportCriteria :: rx where
  "rx_reportCriteria =
     rx_seqs [rx_wordb,
       rx_lits [''cognitive'', ''memory'', ''brain'', ''focus'', ''mental'', ''mood'',
                ''anxiety'', ''stress'', ''physical'', ''exercise'', ''sleep'', ''pain'', ''bp'',
                ''blood pressure'', ''heart'', ''summary'', ''report'', ''status''],
       rx_wordb]"

definition matchesReportCriteria :: "string \<Rightarrow> bool" where
  "matchesReportCriteria text = rx_test rx_reportCriteria (toLowerCase text)"

definition isReportCandidate :: "GraphEnv \<Rightarrow> string \<Rightarrow> bool" where
  "isReportCandidate env text =
     (case ge_llmIngest env text of Some b \<Rightarrow> b | None \<Rightarrow> matchesReportCriteria text)"

text \<open>
  The ingestion hook.  It writes the user message to the report stores (best effort,
  outside this model) and marks the state it was given: the marker is written into the
  caller's state object, so the function returns that state as the call leaves it.
\<close>

definition saveIfReportCandidateOnce :: "GraphEnv \<Rightarrow> AgentGraphState \<Rightarrow> AgentGraphState" where
  "saveIfReportCandidateOnce env state =
     (let text = gs_originalMessage state
      in if text = [] then state
         else if \<not> isReportCandidate env text then state
         else if truthyAt (orEmpty (cx_sharedData (gs_context state))) ''__reportIngested''
         then state
         else state\<lparr>gs_context := (gs_context state)
                \<lparr>cx_sharedData := Some
                   (spread (orEmpty (cx_sharedData (gs_context state)))
                           [''__reportIngested'' \<mapsto> JBool True])\<rparr>\<rparr>)"

definition executeRouterStage ::
  "(string \<rightharpoonup> agent) \<Rightarrow> GraphEnv \<Rightarrow> AgentGraphState \<Rightarrow> AgentGraphState \<times> call list" where
  "executeRouterStage agents env state =
     (case executeRouter agents env state of
        (routed, calls) \<Rightarrow>
          (let routerResult = saveIfReportCandidateOnce env routed;
               timelineEntry = createTimelineEntry ''router'' (ge_elapsed env ''router'')
                 (cx_intent (gs_context routerResult)) (gs_currentAgent routerResult)
                 (extractUsageFromResult routerResult)
           in (routerResult
                 \<lparr>gs_timeline := Some
                    ((case gs_timeline routerResult of None \<Rightarrow> [] | Some t \<Rightarrow> t)
                     @ [timelineEntry])\<rparr>,
               calls)))"

definition createAgentResponseMessage :: "GraphEnv \<Rightarrow> string \<Rightarrow> AgentOutput \<Rightarrow> AgentMessage" where
  "createAgentResponseMessage env agentName result =
     \<lparr>msg_from = agentName, msg_to = ''router'', msg_type = MResponse,
      msg_content = HandlerResponse result,
      msg_timestamp = ge_date env, msg_messageId = ge_uuid env\<rparr>"

definition handleSpecializedAgentError :: "string \<Rightarrow> AgentGraphState \<Rightarrow> AgentGraphState" where
  "handleSpecializedAgentError err state =
     (let agentName = orStr (gs_currentAgent state) ''chat''
      in state\<lparr>gs_error := Some (''Agent execution error in '' @ agentName @ '': ''
                                   @ errString err),
               gs_currentAgent := Some ''error_handler''\<rparr>)"

text \<open>\<^verbatim>\<open>getAgent\<close> throws when the name is not registered.\<close>

definition executeSpecializedAgent ::
  "(string \<rightharpoonup> agent) \<Rightarrow> GraphEnv \<Rightarrow> AgentGraphState \<Rightarrow> AgentGraphState \<times> call list" where
  "executeSpecializedAgent agents env state =
     (let agentName = orStr (gs_currentAgent state) ''chat''
      in case agents agentName of
           None \<Rightarrow> (handleSpecializedAgentError (''Agent not found: '' @ agentName) state, [])
         | Some handler \<Rightarrow>
             (let input = graphInput state (cx_intent (gs_context state))
                            (cx_entities (gs_context state))
              in case handler input of
                   (Inl err, calls) \<Rightarrow>
                     (handleSpecializedAgentError err state, Invoked agentName input # calls)
                 | (Inr result, calls) \<Rightarrow>
                     (state
                        \<lparr>gs_messages := gs_messages state
                           @ [createAgentResponseMessage env agentName result],
                         gs_finalOutput := Some result\<rparr>,
                      Invoked agentName input # calls)))"

definition executeSpecializedAgentStage ::
  "(string \<rightharpoonup> agent) \<Rightarrow> GraphEnv \<Rightarrow> AgentGraphState \<Rightarrow> AgentGraphState \<times> call list" where
  "executeSpecializedAgentStage agents env state =
     (case executeSpecializedAgent agents env state of
        (agentResult, calls) \<Rightarrow>
          (let timelineEntry = createTimelineEntry
                 (''agent:'' @ orStr (gs_currentAgent agentResult) ''chat'')
                 (ge_elapsed env ''agent'') None None (extractUsageFromResult agentResult)
           in (agentResult
                 \<lparr>gs_timeline := Some
                    ((case gs_timeline agentResult of
                        Some t \<Rightarrow> t
                      | None \<Rightarrow> (case gs_timeline state of Some t \<Rightarrow> t | None \<Rightarrow> []))
                     @ [timelineEntry])\<rparr>,
               calls)))"

section \<open>The orchestration graph: collaboration (SimpleAgentGraph.ts)\<close>

definition sharedDataOf :: "AgentGraphState \<Rightarrow> bag" where
  "sharedDataOf state = orEmpty (cx_sharedData (gs_context state))"

text \<open>\<^verbatim>\<open>finalOutput?.sharedData || null\<close>\<close>

definition extractSharedData :: "AgentGraphState \<Rightarrow> bag option" where
  "extractSharedData state =
     (case gs_finalOutput state of None \<Rightarrow> None | Some out \<Rightarrow> out_sharedData out)"

text \<open>The rules that apply, and the evaluation of every rule's predicate.\<close>

definition getApplicableRules :: "bag \<Rightarrow> AgentGraphState \<Rightarrow> CollaborationRule list \<times> call list" where
  "getApplicableRules sharedData state =
     (filter (\<lambda>rule. cr_shouldExecute rule sharedData (cx_intent (gs_context state))
                       (gs_currentAgent state))
             getCollaborationRules,
      map (\<lambda>rule. Evaluated (cr_name rule)) getCollaborationRules)"

definition createCollaborationState :: "AgentGraphState \<Rightarrow> CollaborationRule \<Rightarrow> AgentGraphState" where
  "createCollaborationState state rule =
     state
       \<lparr>gs_currentAgent := Some (cr_targetAgent rule),
        gs_context := (gs_context state)
          \<lparr>cx_sharedData := Some
             (spread (sharedDataOf state) (orEmpty (extractSharedData state)))\<rparr>\<rparr>"

text \<open>
  One rule: the hook, the state for the target, the target's handler.  Nothing in it
  throws (\<open>executeSpecializedAgent\<close> answers a handler's error with an error state);
  the result is a sum so that the callers keep their \<^verbatim>\<open>catch\<close> branches.
\<close>

definition executeCollaborationRule ::
  "(string \<rightharpoonup> agent) \<Rightarrow> GraphEnv \<Rightarrow> AgentGraphState \<Rightarrow> CollaborationRule \<Rightarrow>
   (string + AgentGraphState) \<times> call list" where
  "executeCollaborationRule agents env state rule =
     (let nextState = createCollaborationState (saveIfReportCandidateOnce env state) rule
      in case executeSpecializedAgent agents env nextState of
           (result, calls) \<Rightarrow> (Inr result, calls))"

text \<open>
  The caller's \<open>state\<close> after rules have run on it: the hook of the first rule has
  marked it.
\<close>

definition afterRules :: "GraphEnv \<Rightarrow> AgentGraphState \<Rightarrow> CollaborationRule list \<Rightarrow> AgentGraphState" where
  "afterRules env state rules = (if rules = [] then state else saveIfReportCandidateOnce env state)"

fun executeSequentialCollaboration ::
  "(string \<rightharpoonup> agent) \<Rightarrow> GraphEnv \<Rightarrow> AgentGraphState \<Rightarrow> CollaborationRule list \<Rightarrow>
   AgentGraphState \<times> call list" where
  "executeSequentialCollaboration agents env currentState [] = (currentState, [])"
| "executeSequentialCollaboration agents env currentState (rule # rules) =
     (case executeCollaborationRule agents env currentState rule of
        (Inr result, calls) \<Rightarrow>
          (case executeSequentialCollaboration agents env result rules of
             (final, later) \<Rightarrow> (final, calls @ later))
      | (Inl err, calls) \<Rightarrow>
          (case executeSequentialCollaboration agents env
                  (saveIfReportCandidateOnce env currentState) rules of
             (final, later) \<Rightarrow> (final, calls @ later)))"

definition mergeContext :: "GraphContext \<Rightarrow> GraphContext \<Rightarrow> GraphContext" where
  "mergeContext a b =
     \<lparr>cx_intent = (case cx_intent b of None \<Rightarrow> cx_intent a | Some v \<Rightarrow> Some v),
      cx_entities = (case cx_entities b of None \<Rightarrow> cx_entities a | Some v \<Rightarrow> Some v),
      cx_sharedData = (case cx_sharedData b of None \<Rightarrow> cx_sharedData a | Some v \<Rightarrow> Some v),
      cx_multiAgentRequest =
        (case cx_multiAgentRequest b of None \<Rightarrow> cx_multiAgentRequest a | Some v \<Rightarrow> Some v),
      cx_additionalAgents =
        (case cx_additionalAgents b of None \<Rightarrow> cx_additionalAgents a | Some v \<Rightarrow> Some v)\<rparr>"

definition mergeSingleResult :: "AgentGraphState \<Rightarrow> AgentGraphState \<Rightarrow> AgentGraphState" where
  "mergeSingleResult mergedState result =
     mergedState
       \<lparr>gs_messages := gs_messages mergedState @ gs_messages result,
        gs_context := (mergeContext (gs_context mergedState) (gs_context result))
          \<lparr>cx_sharedData := Some
             (spread (spread (sharedDataOf mergedState) (sharedDataOf result))
                     (orEmpty (extractSharedData result)))\<rparr>\<rparr>"

definition mergeCollaborationResults :: "AgentGraphState \<Rightarrow> AgentGraphState list \<Rightarrow> AgentGraphState" where
  "mergeCollaborationResults originalState results =
     (if length results = 0 then originalState
      else foldl mergeSingleResult originalState results)"

record CollaborationResult =
  res_rule :: CollaborationRule
  res_result :: AgentGraphState
  res_success :: bool
  res_error :: "string option"

text \<open>
  The body of the \<^verbatim>\<open>async rule => { try ... catch ... }\<close> that winner-take-all and
  all-finish-merge map over the rules; in the \<^verbatim>\<open>catch\<close> the result is the caller's
  state.
\<close>

definition settleRule ::
  "(string \<rightharpoonup> agent) \<Rightarrow> GraphEnv \<Rightarrow> AgentGraphState \<Rightarrow> CollaborationRule \<Rightarrow>
   CollaborationResult \<times> call list" where
  "settleRule agents env state rule =
     (case executeCollaborationRule agents env state rule of
        (Inr result, calls) \<Rightarrow>
          (\<lparr>res_rule = rule, res_result = result, res_success = True, res_error = None\<rparr>, calls)
      | (Inl err, calls) \<Rightarrow>
          (\<lparr>res_rule = rule, res_result = saveIfReportCandidateOnce env state,
            res_success = False, res_error = Some err\<rparr>, calls))"

text \<open>
  An element of the array that \<^verbatim>\<open>Promise.allSettled\<close> resolves to.  The array is in
  the order of the promises, whatever the order in which they settle.
\<close>

datatype 'a settled = Fulfilled 'a | Rejected string

definition findFirstSuccessfulResult :: "CollaborationResult settled list \<Rightarrow> CollaborationResult option" where
  "findFirstSuccessfulResult results =
     (case find (\<lambda>r. case r of Fulfilled v \<Rightarrow> res_success v | Rejected e \<Rightarrow> False) results of
        Some (Fulfilled v) \<Rightarrow> Some v
      | _ \<Rightarrow> None)"

definition extractSuccessfulResults :: "CollaborationResult settled list \<Rightarrow> AgentGraphState list" where
  "extractSuccessfulResults results =
     concat (map (\<lambda>r. case r of
                         Fulfilled v \<Rightarrow> (if res_success v then [res_result v] else [])
                       | Rejected e \<Rightarrow> [])
                 results)"

definition executeWinnerTakeAllCollaboration ::
  "(string \<rightharpoonup> agent) \<Rightarrow> GraphEnv \<Rightarrow> AgentGraphState \<Rightarrow> CollaborationRule list \<Rightarrow>
   AgentGraphState \<times> call list" where
  "executeWinnerTakeAllCollaboration agents env state rules =
     (let settledRules = map (settleRule agents env state) rules;
          results = map (\<lambda>(r, calls). Fulfilled r) settledRules;
          calls = concat (map snd settledRules)
      in case findFirstSuccessfulResult results of
           Some successfulResult \<Rightarrow> (res_result successfulResult, calls)
         | None \<Rightarrow> (afterRules env state rules, calls))"

definition executeAllFinishMergeCollaboration ::
  "(string \<rightharpoonup> agent) \<Rightarrow> GraphEnv \<Rightarrow> AgentGraphState \<Rightarrow> CollaborationRule list \<Rightarrow>
   AgentGraphState \<times> call list" where
  "executeAllFinishMergeCollaboration agents env state rules =
     (let settledRules = map (settleRule agents env state) rules;
          results = map (\<lambda>(r, calls). Fulfilled r) settledRules;
          calls = concat (map snd settledRules)
      in (mergeCollaborationResults (afterRules env state rules)
            (extractSuccessfulResults results),
          calls))"

text \<open>
  Parallel execution under the semaphore.  The source collects the results in the
  order in which the rules finish; here they finish in the order of the list.
\<close>

definition executeParallelCollaboration ::
  "(string \<rightharpoonup> agent) \<Rightarrow> GraphEnv \<Rightarrow> AgentGraphState \<Rightarrow> CollaborationRule list \<Rightarrow>
   AgentGraphState \<times> call list" where
  "executeParallelCollaboration agents env state rules =
     (let finished = map (executeCollaborationRule agents env state) rules;
          successfulResults =
            concat (map (\<lambda>(r, calls). case r of Inr result \<Rightarrow> [result] | Inl err \<Rightarrow> [])
                        finished);
          calls = concat (map snd finished)
      in (mergeCollaborationResults (afterRules env state rules) successfulResults, calls))"

definition executeCollaborationStrategy ::
  "(string \<rightharpoonup> agent) \<Rightarrow> GraphEnv \<Rightarrow> AgentGraphState \<Rightarrow> CollaborationRule list \<Rightarrow>
   ExecutionStrategy \<Rightarrow> AgentGraphState \<times> call list" where
  "executeCollaborationStrategy agents env state rules strategy =
     (case es_type strategy of
        Sequential \<Rightarrow> executeSequentialCollaboration agents env state rules
      | Parallel \<Rightarrow> executeParallelCollaboration agents env state rules
      | WinnerTakeAll \<Rightarrow> executeWinnerTakeAllCollaboration agents env state rules
      | AllFinishMerge \<Rightarrow> executeAllFinishMergeCollaboration agents env state rules)"

definition executeGenericCollaboration ::
  "(string \<rightharpoonup> agent) \<Rightarrow> GraphEnv \<Rightarrow> AgentGraphState \<Rightarrow> AgentGraphState \<times> call list" where
  "executeGenericCollaboration agents env state =
     (if cx_multiAgentRequest (gs_context state) = Some True then (state, [])
      else
        (case extractSharedData state of
           None \<Rightarrow> (state, [])
         | Some sharedData \<Rightarrow>
             (case getApplicableRules sharedData state of
                (applicableRules, evaluations) \<Rightarrow>
                  if length applicableRules = 0 then (state, evaluations)
                  else
                    (case executeCollaborationStrategy agents env state applicableRules
                            (determineExecutionStrategy applicableRules state) of
                       (result, calls) \<Rightarrow> (result, evaluations @ calls)))))"

definition executeCollaborationStage ::
  "(string \<rightharpoonup> agent) \<Rightarrow> GraphEnv \<Rightarrow> AgentGraphState \<Rightarrow> AgentGraphState \<times> call list" where
  "executeCollaborationStage agents env state0 =
     (let state = saveIfReportCandidateOnce env state0
      in case executeGenericCollaboration agents env state of
           (collaborationResult, calls) \<Rightarrow>
             (let timelineEntry = createTimelineEntry ''collaboration''
                    (ge_elapsed env ''collaboration'') None None None
              in (collaborationResult
                    \<lparr>gs_timeline := Some
                       ((case gs_timeline collaborationResult of
                           Some t \<Rightarrow> t
                         | None \<Rightarrow> (case gs_timeline state of Some t \<Rightarrow> t | None \<Rightarrow> []))
                        @ [timelineEntry])\<rparr>,
                  calls)))"

text \<open>
  \<^verbatim>\<open>process\<close>.  The three stages in the \<^verbatim>\<open>try\<close> form \<open>runStages\<close>; no stage lets
  an error escape, so its result is always \<open>Inr\<close>, and the \<^verbatim>\<open>catch\<close> of
  \<^verbatim>\<open>process\<close> is the \<open>Inl\<close> branch.
\<close>

definition truthyError :: "AgentGraphState \<Rightarrow> bool" where
  "truthyError state = truthyStr (gs_error state)"

definition runStages ::
  "(string \<rightharpoonup> agent) \<Rightarrow> GraphEnv \<Rightarrow> AgentGraphState \<Rightarrow> string + AgentGraphState \<times> call list" where
  "runStages agents env initialState =
     (case executeRouterStage agents env initialState of
        (routerResult, calls1) \<Rightarrow>
          if truthyError routerResult then Inr (routerResult, calls1)
          else
            (case executeSpecializedAgentStage agents env routerResult of
               (agentResult, calls2) \<Rightarrow>
                 if truthyError agentResult then Inr (agentResult, calls1 @ calls2)
                 else
                   (case executeCollaborationStage agents env agentResult of
                      (finalResult, calls3) \<Rightarrow> Inr (finalResult, calls1 @ calls2 @ calls3))))"

definition processWith ::
  "(string \<rightharpoonup> agent) \<Rightarrow> GraphEnv \<Rightarrow> AgentInput \<Rightarrow> AgentGraphState \<times> call list" where
  "processWith agents env input =
     (let initialState = createInitialState input
      in case runStages agents env initialState of
           Inr r \<Rightarrow> r
         | Inl err \<Rightarrow> (handleProcessingError err initialState, []))"

text \<open>\<^verbatim>\<open>SimpleAgentGraph.process\<close>, on the agents that the constructor registers.\<close>

definition process :: "GraphEnv \<Rightarrow> AgentInput \<Rightarrow> AgentGraphState \<times> call list" where
  "process env input = processWith (initializeAgents env) env input"

section \<open>Notions used to state the properties\<close>

text \<open>
  The body that the policy resolves for an intent: \<open>None\<close> when rendering the
  template throws.
\<close>

definition resolvedBody ::
  "PolicyEnv \<Rightarrow> 'a NotificationIntent_scheme \<Rightarrow> PolicyContext \<Rightarrow> string option" where
  "resolvedBody env intent ctx =
     (case pickBody env intent [] ctx of
        Inl thrown \<Rightarrow> None
      | Inr (body, notes) \<Rightarrow> Some body)"



text \<open>
  The four values that the policy resolves for an intent and hands to the key
  generator: recipients, body, schedule instant and repeat specification.
\<close>

definition resolvedKeyData ::
  "PolicyEnv \<Rightarrow> 'a NotificationIntent_scheme \<Rightarrow> PolicyContext \<Rightarrow> KeyData" where
  "resolvedKeyData env intent ctx =
     (let sched = pickSchedule env intent (pickTimezone intent ctx) ctx
      in \<lparr>kd_to = pickRecipients intent,
          kd_body = (case resolvedBody env intent ctx of None \<Rightarrow> [] | Some body \<Rightarrow> body),
          kd_scheduleAt = fst sched,
          kd_repeat = fst (snd sched)\<rparr>)"




text \<open>The router's answer when the appointment guard blocks.\<close>

definition blockedOutput :: AgentOutput where
  "blockedOutput =
     emptyOutput
       \<lparr>out_route := Some ''none'', out_intent := Some ''blocked'',
        out_reply := ''Google Calendar access is required to manage appointments.''\<rparr>"

text \<open>
  The keys of the shared data of a state; whether the ingestion hook would mark a state,
  and the state with the marker; the state that one collaboration rule produces.
\<close>

definition keys :: "AgentGraphState \<Rightarrow> string set" where
  "keys state = dom (sharedDataOf state)"

definition ingests :: "GraphEnv \<Rightarrow> AgentGraphState \<Rightarrow> bool" where
  "ingests env state =
     (gs_originalMessage state \<noteq> [] \<and> isReportCandidate env (gs_originalMessage state) \<and>
      \<not> truthyAt (sharedDataOf state) ''__reportIngested'')"

definition markIngested :: "AgentGraphState \<Rightarrow> AgentGraphState" where
  "markIngested state =
     state\<lparr>gs_context := (gs_context state)
       \<lparr>cx_sharedData := Some (spread (sharedDataOf state) [''__reportIngested'' \<mapsto> JBool True])\<rparr>\<rparr>"

definition ruleResult ::
  "(string \<rightharpoonup> agent) \<Rightarrow> GraphEnv \<Rightarrow> AgentGraphState \<Rightarrow> CollaborationRule \<Rightarrow> AgentGraphState" where
  "ruleResult agents env state rule =
     fst (executeSpecializedAgent agents env
            (createCollaborationState (saveIfReportCandidateOnce env state) rule))"

text \<open>
  Failure of a handler call: the name is not registered, or \<open>process\<close> throws.  The
  router fails on a request when its call fails on the initial state; the handler stage
  fails on a state when the call of the state's current agent fails.  The state after
  the router stage, and the reply that \<open>handleProcessingError\<close> substitutes.
\<close>

definition agentFails :: "(string \<rightharpoonup> agent) \<Rightarrow> string \<Rightarrow> AgentInput \<Rightarrow> bool" where
  "agentFails agents name input =
     (case agents name of None \<Rightarrow> True | Some a \<Rightarrow> isl (fst (a input)))"

definition routerFails :: "(string \<rightharpoonup> agent) \<Rightarrow> AgentInput \<Rightarrow> bool" where
  "routerFails agents input =
     agentFails agents ''router'' (graphInput (createInitialState input) None None)"

definition handlerFailsOn :: "(string \<rightharpoonup> agent) \<Rightarrow> AgentGraphState \<Rightarrow> bool" where
  "handlerFailsOn agents state =
     agentFails agents (orStr (gs_currentAgent state) ''chat'')
       (graphInput state (cx_intent (gs_context state)) (cx_entities (gs_context state)))"

definition routedState :: "(string \<rightharpoonup> agent) \<Rightarrow> GraphEnv \<Rightarrow> AgentInput \<Rightarrow> AgentGraphState" where
  "routedState agents env input = fst (executeRouterStage agents env (createInitialState input))"

definition apologeticOutput :: AgentOutput where
  "apologeticOutput =
     emptyOutput
       \<lparr>out_reply := ''I'' @ [CHR 0x27] @ ''m sorry, I encountered an error. Please try again.'',
        out_actions := Some [\<lparr>act_type = ''error'', act_status = Some Failed,
                               act_payload = None\<rparr>]\<rparr>"

section \<open>Sample inputs\<close>

text \<open>A runtime with a toy serialiser and digest, for evaluating the policy on examples.\<close>

definition demoStringify :: "KeyData \<Rightarrow> string" where
  "demoStringify k =
     concat (kd_to k) @ ''|'' @ kd_body k @ ''|''
       @ (case kd_scheduleAt k of None \<Rightarrow> [] | Some t \<Rightarrow> t) @ ''|''
       @ (case kd_repeat k of None \<Rightarrow> [] | Some r \<Rightarrow> rp_cron r)"

definition demoISO :: "int \<Rightarrow> string" where
  "demoISO t = ''T+'' @ showNat (nat t)"

definition demoPolicyEnv :: PolicyEnv where
  "demoPolicyEnv =
     \<lparr>pe_now = 1000, pe_tzOffset = 0, pe_toISOString = demoISO, pe_trim = trim,
      pe_stringify = demoStringify, pe_sha256hex = rev\<rparr>"

definition demoInput :: "string \<Rightarrow> AgentInput" where
  "demoInput msg =
     \<lparr>in_userId = ''u7'', in_sessionId = ''s7'', in_message = msg, in_metadata = None,
      in_intent = None, in_entities = None\<rparr>"

definition demoCtx :: "string \<Rightarrow> PolicyContext" where
  "demoCtx msg = \<lparr>pc_defaultTz = defaultTz, pc_input = demoInput msg\<rparr>"





text \<open>Two intents that differ in channel, kind and recipients and agree on body and time.\<close>

definition checkupIntentA :: NotificationIntent where
  "checkupIntentA =
     \<lparr>ni_intent = Notify, ni_channel = Sms, ni_recipients = [],
      ni_schedule = Some (SDatetime ''2025-07-03T09:00:00.000Z'' None),
      ni_templateKey = None, ni_message = Some ''checkup'', ni_variables = None,
      ni_timezone = None\<rparr>"

definition checkupIntentB :: NotificationIntent where
  "checkupIntentB =
     \<lparr>ni_intent = Remind, ni_channel = Whatsapp,
      ni_recipients = [\<lparr>rc_phoneE164 = ''+61400000000'', rc_name = None\<rparr>],
      ni_schedule = Some (SDatetime ''2025-07-03T09:00:00.000Z'' (Some ''UTC'')),
      ni_templateKey = Some ''reminder.simple'', ni_message = Some ''  checkup '',
      ni_variables = None, ni_timezone = Some ''UTC''\<rparr>"






text \<open>
  A graph environment: a keyword classifier, handlers that answer with their name (the
  notification and appointment handlers leave their schedule in the shared data, the
  report handler throws), and a language model that never answers the ingestion
  question, so that the rule-based check decides.
\<close>

definition demoClassify :: "string \<Rightarrow> Classification" where
  "demoClassify msg =
     \<lparr>cl_intent =
        (if rx_test (rx_lit ''book'') (toLowerCase msg) then ''appointment.book''
         else if rx_test (rx_lit ''remind'') (toLowerCase msg) then ''notification.schedule''
         else ''health.advice''),
      cl_entities = None, cl_usageTotalTokens = None, cl_multiAgentRequest = None,
      cl_additionalAgents = None\<rparr>"

definition demoHandlers :: "string \<Rightarrow> AgentInput \<Rightarrow> string + AgentOutput" where
  "demoHandlers name input =
     (if name = ''report'' then Inl ''report store unavailable''
      else Inr (emptyOutput
             \<lparr>out_reply := name @ '' done'',
              out_sharedData :=
                (if name = ''notification'' then Some [''notificationSchedule'' \<mapsto> JBool True]
                 else if name = ''appointment'' then Some [''appointmentSchedule'' \<mapsto> JBool True]
                 else None)\<rparr>))"

definition demoGraphEnv :: GraphEnv where
  "demoGraphEnv =
     \<lparr>ge_classify = demoClassify, ge_handlers = demoHandlers,
      ge_llmIngest = (\<lambda>text. None), ge_date = 0, ge_uuid = ''id'',
      ge_elapsed = (\<lambda>step. 1)\<rparr>"

definition bookingInput :: "string option \<Rightarrow> AgentInput" where
  "bookingInput token =
     \<lparr>in_userId = ''u1'', in_sessionId = ''s1'',
      in_message = ''book a GP appointment tomorrow 3pm'',
      in_metadata = Some \<lparr>md_timezone = None, md_locale = None, md_googleAccessToken = token\<rparr>,
      in_intent = None, in_entities = None\<rparr>"

text \<open>
  A state as the handler stage leaves it after the notification handler, for a request
  that the router marked as a multi-agent request.
\<close>

definition multiState :: "string \<Rightarrow> AgentGraphState" where
  "multiState msg =
     (createInitialState (demoInput msg))
       \<lparr>gs_currentAgent := Some ''notification'',
        gs_finalOutput := Some (emptyOutput
          \<lparr>out_reply := ''notification done'',
           out_sharedData := Some [''notificationSchedule'' \<mapsto> JBool True]\<rparr>),
        gs_context :=
          \<lparr>cx_intent = Some ''notification.schedule'', cx_entities = None,
           cx_sharedData = Some Map.empty, cx_multiAgentRequest = Some True,
           cx_additionalAgents = Some [''appointment'']\<rparr>\<rparr>"


chapter \<open>Verified properties\<close>

section \<open>Strategy selection: properties\<close>

lemma remdups_one_priority:
  assumes "\<forall>r \<in> set rules. cr_priority r = p" and "rules \<noteq> []"
  shows "remdups (map cr_priority rules) = [p]"
  using assms
proof (induction rules)
  case Nil
  then show ?case by simp
next
  case (Cons r rs)
  show ?case
  proof (cases "rs = []")
    case True
    with Cons.prems show ?thesis by simp
  next
    case False
    with Cons have "remdups (map cr_priority rs) = [p]" by simp
    moreover from False Cons.prems have "cr_priority r \<in> set (map cr_priority rs)"
      by (cases rs) auto
    ultimately show ?thesis using Cons.prems by simp
  qed
qed

lemma mixed_iff_card:
  "hasMixedPriorities rules \<longleftrightarrow> card (cr_priority ` set rules) > 1"
  by (simp add: hasMixedPriorities_def length_remdups_card_conv)

text \<open>
  Claim C4.  Strategy selection is a function of the filtered rule list alone: exactly one
  rule selects Sequential; rules that span more than one distinct priority select
  Winner-take-all; more than one rule, all of one priority, selects All-finish-merge; and
  no rule list at all makes the selection answer Parallel.
\<close>

theorem strategy_selection:
  "(length rules = 1 \<longrightarrow>
      es_type (determineExecutionStrategy rules state) = Sequential) \<and>
   (card (cr_priority ` set rules) > 1 \<longrightarrow>
      es_type (determineExecutionStrategy rules state) = WinnerTakeAll) \<and>
   (length rules > 1 \<and> (\<exists>p. \<forall>r \<in> set rules. cr_priority r = p) \<longrightarrow>
      es_type (determineExecutionStrategy rules state) = AllFinishMerge) \<and>
   es_type (determineExecutionStrategy rules state) \<noteq> Parallel \<and>
   determineExecutionStrategy rules state = determineExecutionStrategy rules state'"
proof (intro conjI impI)
  assume "length rules = 1"
  then show "es_type (determineExecutionStrategy rules state) = Sequential"
    by (simp add: determineExecutionStrategy_def)
next
  assume mixed: "card (cr_priority ` set rules) > 1"
  then have "length rules \<noteq> 1"
    by (cases rules) (auto simp: length_Suc_conv)
  with mixed show "es_type (determineExecutionStrategy rules state) = WinnerTakeAll"
    by (simp add: determineExecutionStrategy_def mixed_iff_card)
next
  assume same: "length rules > 1 \<and> (\<exists>p. \<forall>r \<in> set rules. cr_priority r = p)"
  then obtain p where p: "\<forall>r \<in> set rules. cr_priority r = p" by blast
  from same have ne: "rules \<noteq> []" by auto
  have notmixed: "\<not> hasMixedPriorities rules"
    by (simp add: hasMixedPriorities_def remdups_one_priority [OF p ne])
  from same obtain r q rs where rules: "rules = r # q # rs"
    by (cases rules; cases "tl rules") auto
  with p have "hasSamePriority rules"
    by (auto simp: hasSamePriority_def list_all_iff)
  with same notmixed show "es_type (determineExecutionStrategy rules state) = AllFinishMerge"
    by (simp add: determineExecutionStrategy_def)
next
  show "es_type (determineExecutionStrategy rules state) \<noteq> Parallel"
    by (simp add: determineExecutionStrategy_def)
next
  show "determineExecutionStrategy rules state = determineExecutionStrategy rules state'"
    by (simp add: determineExecutionStrategy_def)
qed

text \<open>The three cases of claim C4 on rule lists built from the graph's own rules.\<close>

theorem strategy_selection_witness:
  "es_type (determineExecutionStrategy [createNotificationToAppointmentRule] ()) = Sequential \<and>
   es_type (determineExecutionStrategy getCollaborationRules ()) = WinnerTakeAll \<and>
   es_type (determineExecutionStrategy
              [createAppointmentToReportRule, createAppointmentToReportRule] ())
     = AllFinishMerge"
proof -
  have one: "length [createNotificationToAppointmentRule] = 1" by simp
  have two: "card (cr_priority ` set getCollaborationRules) > 1"
    by (simp add: getCollaborationRules_def createNotificationToAppointmentRule_def
          createAppointmentToReportRule_def)
  have same: "length [createAppointmentToReportRule, createAppointmentToReportRule] > 1 \<and>
      (\<exists>p. \<forall>r \<in> set [createAppointmentToReportRule, createAppointmentToReportRule].
             cr_priority r = p)"
    by simp
  show ?thesis
    using one two same
      strategy_selection [of "[createNotificationToAppointmentRule]" "()" "()"]
      strategy_selection [of getCollaborationRules "()" "()"]
      strategy_selection [of "[createAppointmentToReportRule, createAppointmentToReportRule]"
        "()" "()"]
    by blast
qed

section \<open>Notification policy: properties\<close>

lemma pickBody_resolved:
  "resolvedBody env intent ctx =
     (case pickBody env intent notes ctx of Inl thrown \<Rightarrow> None | Inr (body, n) \<Rightarrow> Some body)"
  by (simp add: resolvedBody_def pickBody_def Let_def split: sum.splits)

lemma evaluatePolicy_key:
  assumes "evaluatePolicy env intent ctx = Inr (plan, notes)"
  shows "np_idempotencyKey plan = generateIdempotencyKey env (resolvedKeyData env intent ctx)"
proof -
  obtain ch n1 where fc: "forceChannel intent [] = (ch, n1)"
    by (cases "forceChannel intent []")
  from assms fc obtain body n2 where pb: "pickBody env intent n1 ctx = Inr (body, n2)"
    by (cases "pickBody env intent n1 ctx")
       (auto simp: evaluatePolicy_def Let_def pickRecipients_def)
  obtain sa rp en where ps: "pickSchedule env intent (pickTimezone intent ctx) ctx = (sa, rp, en)"
    by (cases "pickSchedule env intent (pickTimezone intent ctx) ctx")
  from pb have body: "resolvedBody env intent ctx = Some body"
    using pickBody_resolved [of env intent ctx n1] by simp
  from assms fc pb ps have "np_idempotencyKey plan =
      generateIdempotencyKey env
        \<lparr>kd_to = pickRecipients intent, kd_body = body, kd_scheduleAt = sa, kd_repeat = rp\<rparr>"
    by (auto simp: evaluatePolicy_def Let_def buildPlan_def split: if_splits)
  with body ps show ?thesis by (simp add: resolvedKeyData_def)
qed










text \<open>
  Claim C2.  The idempotency key of an accepted plan is the digest of exactly the
  resolved recipients, body, schedule instant and repeat specification; so two
  evaluations (at any two times, of any two intents) that resolve these four to the
  same values produce the same key.
\<close>

theorem idempotencyKey_deterministic:
  assumes "evaluatePolicy env1 intent1 ctx1 = Inr (plan1, notes1)"
    and "evaluatePolicy env2 intent2 ctx2 = Inr (plan2, notes2)"
    and "pe_stringify env1 = pe_stringify env2"
    and "pe_sha256hex env1 = pe_sha256hex env2"
    and "resolvedKeyData env1 intent1 ctx1 = resolvedKeyData env2 intent2 ctx2"
  shows "np_idempotencyKey plan1 = np_idempotencyKey plan2 \<and>
         np_idempotencyKey plan1
           = generateIdempotencyKey env1 (resolvedKeyData env1 intent1 ctx1)"
  using assms evaluatePolicy_key [of env1 intent1 ctx1 plan1 notes1]
    evaluatePolicy_key [of env2 intent2 ctx2 plan2 notes2]
  by (simp add: generateIdempotencyKey_def)

text \<open>
  Two intents of different channel, kind, recipients list and time zone, evaluated at
  different times, with the same resolved body and instant: the keys agree.
\<close>

theorem idempotencyKey_deterministic_witness:
  "np_idempotencyKey (fst (projr (evaluatePolicy demoPolicyEnv checkupIntentA (demoCtx ''a''))))
     = np_idempotencyKey
         (fst (projr (evaluatePolicy (demoPolicyEnv\<lparr>pe_now := 2000\<rparr>) checkupIntentB
                        (demoCtx ''b'')))) \<and>
   checkupIntentA \<noteq> checkupIntentB"
proof -
  let ?env2 = "demoPolicyEnv\<lparr>pe_now := 2000\<rparr>"
  have ok1: "\<not> isl (evaluatePolicy demoPolicyEnv checkupIntentA (demoCtx ''a''))"
    by code_simp
  have ok2: "\<not> isl (evaluatePolicy ?env2 checkupIntentB (demoCtx ''b''))"
    by code_simp
  obtain p1 n1 where e1:
      "evaluatePolicy demoPolicyEnv checkupIntentA (demoCtx ''a'') = Inr (p1, n1)"
    using ok1 by (cases "evaluatePolicy demoPolicyEnv checkupIntentA (demoCtx ''a'')") auto
  obtain p2 n2 where e2: "evaluatePolicy ?env2 checkupIntentB (demoCtx ''b'') = Inr (p2, n2)"
    using ok2 by (cases "evaluatePolicy ?env2 checkupIntentB (demoCtx ''b'')") auto
  have same: "resolvedKeyData demoPolicyEnv checkupIntentA (demoCtx ''a'')
                = resolvedKeyData ?env2 checkupIntentB (demoCtx ''b'')"
    by code_simp
  have differ: "checkupIntentA \<noteq> checkupIntentB"
    by (simp add: checkupIntentA_def checkupIntentB_def)
  from idempotencyKey_deterministic [OF e1 e2 _ _ same] differ
  show ?thesis by (simp add: e1 e2)
qed


section \<open>Plan matching: properties\<close>















section \<open>Router: properties\<close>

lemma rx_anchored_at:
  "rx_seqs [rx_bol, rx_lit p] (pre, s, caps) =
     (if pre = [] \<and> take (length p) s = p
      then [(rev p @ pre, drop (length p) s, caps)] else [])"
  by (simp add: rx_seqs_def rx_seq_def)

lemma rx_anchored_later:
  "pre \<noteq> [] \<Longrightarrow> rx_search (rx_seqs [rx_bol, rx_lit p]) pre s = None"
  by (induction s arbitrary: pre) (simp_all add: rx_anchored_at del: rx_lit.simps)

lemma rx_anchored_test:
  "rx_test (rx_seqs [rx_bol, rx_lit p]) s \<longleftrightarrow> take (length p) s = p"
proof (cases s)
  case Nil
  then show ?thesis by (simp add: rx_test_def rx_anchored_at del: rx_lit.simps)
next
  case (Cons c cs)
  then show ?thesis
    by (simp add: rx_test_def rx_anchored_at rx_anchored_later del: rx_lit.simps)
qed

lemma rx_appointment_prefix:
  "rx_test rx_appointment s \<longleftrightarrow> (\<exists>rest. s = ''appointment.'' @ rest)"
proof -
  have "take (length ''appointment.'') s = ''appointment.'' \<longleftrightarrow>
        (\<exists>rest. s = ''appointment.'' @ rest)"
    by (metis append_eq_conv_conj)
  then show ?thesis
    unfolding rx_appointment_def rx_anchored_test .
qed

text \<open>
  Claim C10.  Whatever the classifier (and so whatever its confidence), when the
  classified intent is of the form \<^verbatim>\<open>appointment.*\<close> and the request has no
  metadata, no token, an empty token or the placeholder token, the router answers with
  the explanation of the guard and calls no handler: the registry is not even read.
\<close>

theorem appointment_guard:
  assumes intent: "\<exists>rest. cl_intent (classify (in_message input)) = ''appointment.'' @ rest"
    and token: "in_metadata input = None \<or>
       (\<exists>md. in_metadata input = Some md \<and>
             md_googleAccessToken md \<in> {None, Some [], Some ''test-token''})"
  shows "RouterAgent_process classify registry input = (blockedOutput, []) \<and>
         out_reply blockedOutput = ''Google Calendar access is required to manage appointments.''"
proof -
  from intent have m: "rx_test rx_appointment (cl_intent (classify (in_message input)))"
    by (auto simp: rx_appointment_prefix)
  from token have l: "lacksToken (in_metadata input)"
    by (auto simp: lacksToken_def truthyStr_def)
  from m l have "RouterAgent_process classify registry input = (blockedOutput, [])"
    by (simp add: RouterAgent_process_def Let_def firstBlock_def BLOCK_RULES_def
          appointmentGuard_def blockedOutput_def orStr_def)
  then show ?thesis by (simp add: blockedOutput_def emptyOutput_def)
qed

lemma demo_intent:
  "cl_intent (demoClassify ''book a GP appointment tomorrow 3pm'') = ''appointment.book''"
  by code_simp

lemma demo_classify_rest:
  "cl_entities (demoClassify m) = None" "cl_usageTotalTokens (demoClassify m) = None"
  "cl_multiAgentRequest (demoClassify m) = None" "cl_additionalAgents (demoClassify m) = None"
  by (simp_all add: demoClassify_def)

lemma guard_book: "rx_test rx_appointment ''appointment.book''"
  by code_simp

lemma route_book: "resolveRoute ''appointment.book'' = Route ''appointment''"
  by code_simp

text \<open>
  The booking request of the spec's scenario with the placeholder token and without a
  token: blocked, no handler called.  With a valid token the same request reaches the
  appointment handler.
\<close>

theorem appointment_guard_witness:
  "RouterAgent_process demoClassify (routerRegistry demoGraphEnv)
     (bookingInput (Some ''test-token'')) = (blockedOutput, []) \<and>
   RouterAgent_process demoClassify (routerRegistry demoGraphEnv)
     (bookingInput None) = (blockedOutput, []) \<and>
   snd (RouterAgent_process demoClassify (routerRegistry demoGraphEnv)
          (bookingInput (Some ''valid-token'')))
     = [Invoked ''appointment''
          ((bookingInput (Some ''valid-token''))\<lparr>in_intent := Some ''appointment.book''\<rparr>)]"
proof -
  have i: "\<And>t. \<exists>rest. cl_intent (demoClassify (in_message (bookingInput t)))
                        = ''appointment.'' @ rest"
    by (rule exI [of _ "''book''"]) (simp add: bookingInput_def demo_intent)
  have t1: "in_metadata (bookingInput (Some ''test-token'')) = None \<or>
       (\<exists>md. in_metadata (bookingInput (Some ''test-token'')) = Some md \<and>
             md_googleAccessToken md \<in> {None, Some [], Some ''test-token''})"
    by (simp add: bookingInput_def)
  have t2: "in_metadata (bookingInput None) = None \<or>
       (\<exists>md. in_metadata (bookingInput None) = Some md \<and>
             md_googleAccessToken md \<in> {None, Some [], Some ''test-token''})"
    by (simp add: bookingInput_def)
  have v: "snd (RouterAgent_process demoClassify (routerRegistry demoGraphEnv)
          (bookingInput (Some ''valid-token'')))
     = [Invoked ''appointment''
          ((bookingInput (Some ''valid-token''))\<lparr>in_intent := Some ''appointment.book''\<rparr>)]"
    by (simp add: RouterAgent_process_def Let_def firstBlock_def BLOCK_RULES_def
          appointmentGuard_def bookingInput_def demo_intent demo_classify_rest guard_book
          route_book lacksToken_def truthyStr_def routerRegistry_def specialized_def
          demoGraphEnv_def demoHandlers_def)
  from i [of "Some ''test-token''"] t1 i [of None] t2 v
    appointment_guard [of demoClassify "bookingInput (Some ''test-token'')"
      "routerRegistry demoGraphEnv"]
    appointment_guard [of demoClassify "bookingInput None" "routerRegistry demoGraphEnv"]
  show ?thesis by simp
qed

section \<open>Orchestration graph: shared data and the collaboration stage\<close>

lemma hook_cases:
  "saveIfReportCandidateOnce env state = (if ingests env state then markIngested state else state)"
  by (auto simp: saveIfReportCandidateOnce_def ingests_def markIngested_def sharedDataOf_def Let_def)

lemma keys_markIngested: "keys (markIngested state) = insert ''__reportIngested'' (keys state)"
  by (simp add: keys_def markIngested_def sharedDataOf_def spread_def orEmpty_def)

lemma keys_hook: "keys state \<subseteq> keys (saveIfReportCandidateOnce env state)"
  by (auto simp: hook_cases keys_markIngested)

lemma hook_idem:
  "saveIfReportCandidateOnce env (saveIfReportCandidateOnce env state) = saveIfReportCandidateOnce env state"
  by (auto simp: hook_cases ingests_def markIngested_def sharedDataOf_def spread_def orEmpty_def truthyAt_def)

lemma hook_multi:
  "cx_multiAgentRequest (gs_context (saveIfReportCandidateOnce env state)) = cx_multiAgentRequest (gs_context state)"
  by (simp add: hook_cases markIngested_def)

lemma hook_timeline:
  "gs_timeline (saveIfReportCandidateOnce env state) = gs_timeline state"
  by (simp add: hook_cases markIngested_def)

lemma orEmpty_simps [simp]: "orEmpty None = Map.empty" "orEmpty (Some m) = m"
  by (simp_all add: orEmpty_def)

lemma shared_executeRouter:
  "sharedDataOf (fst (executeRouter agents env state)) = sharedDataOf state"
  by (simp add: executeRouter_def handleRouterError_def sharedDataOf_def Let_def
        split: option.splits prod.splits sum.splits)

lemma shared_executeSpecializedAgent:
  "sharedDataOf (fst (executeSpecializedAgent agents env state)) = sharedDataOf state"
  by (simp add: executeSpecializedAgent_def handleSpecializedAgentError_def sharedDataOf_def
        Let_def split: option.splits prod.splits sum.splits)

lemma keys_timeline [simp]: "keys (state\<lparr>gs_timeline := t\<rparr>) = keys state"
  by (simp add: keys_def sharedDataOf_def)

lemma keys_executeRouterStage:
  "keys state \<subseteq> keys (fst (executeRouterStage agents env state))"
proof -
  obtain routed calls where r: "executeRouter agents env state = (routed, calls)"
    by (cases "executeRouter agents env state")
  then have "keys routed = keys state"
    using shared_executeRouter [of agents env state] by (simp add: keys_def)
  with r keys_hook [of routed env] show ?thesis
    by (simp add: executeRouterStage_def Let_def)
qed

lemma keys_executeSpecializedAgent:
  "keys (fst (executeSpecializedAgent agents env state)) = keys state"
  by (simp add: keys_def shared_executeSpecializedAgent)

lemma keys_executeSpecializedAgentStage:
  "keys state \<subseteq> keys (fst (executeSpecializedAgentStage agents env state))"
proof -
  obtain r calls where r: "executeSpecializedAgent agents env state = (r, calls)"
    by (cases "executeSpecializedAgent agents env state")
  then have "keys r = keys state"
    using keys_executeSpecializedAgent [of agents env state] by simp
  with r show ?thesis
    by (simp add: executeSpecializedAgentStage_def Let_def)
qed

lemma keys_createCollaborationState:
  "keys (createCollaborationState state rule) = keys state \<union> dom (orEmpty (extractSharedData state))"
  by (auto simp: keys_def createCollaborationState_def sharedDataOf_def spread_def)

lemma rule_never_throws:
  "executeCollaborationRule agents env state rule =
     (Inr (fst (executeSpecializedAgent agents env
                  (createCollaborationState (saveIfReportCandidateOnce env state) rule))),
      snd (executeSpecializedAgent agents env
             (createCollaborationState (saveIfReportCandidateOnce env state) rule)))"
  by (simp add: executeCollaborationRule_def Let_def split: prod.splits)

lemma keys_ruleResult: "keys state \<subseteq> keys (ruleResult agents env state rule)"
  using keys_hook [of state env]
  by (auto simp: ruleResult_def keys_executeSpecializedAgent keys_createCollaborationState)

lemma sequential_cons:
  "fst (executeSequentialCollaboration agents env state (rule # rules))
     = fst (executeSequentialCollaboration agents env (ruleResult agents env state rule) rules)"
  by (simp add: rule_never_throws ruleResult_def split: prod.splits)

lemma keys_sequential:
  "keys state \<subseteq> keys (fst (executeSequentialCollaboration agents env state rules))"
proof (induction rules arbitrary: state)
  case Nil
  then show ?case by simp
next
  case (Cons rule rules)
  have "keys state \<subseteq> keys (ruleResult agents env state rule)" by (rule keys_ruleResult)
  also have "\<dots> \<subseteq> keys (fst (executeSequentialCollaboration agents env
                                  (ruleResult agents env state rule) rules))"
    by (rule Cons.IH)
  finally show ?case by (simp only: sequential_cons)
qed

lemma keys_mergeSingleResult:
  "keys (mergeSingleResult m r) = keys m \<union> keys r \<union> dom (orEmpty (extractSharedData r))"
  by (auto simp: keys_def mergeSingleResult_def sharedDataOf_def spread_def)

lemma keys_foldl_merge:
  "keys base \<subseteq> keys (foldl mergeSingleResult base rs)"
proof (induction rs arbitrary: base)
  case Nil
  then show ?case by simp
next
  case (Cons r rs)
  have "keys base \<subseteq> keys (mergeSingleResult base r)"
    by (auto simp: keys_mergeSingleResult)
  also have "\<dots> \<subseteq> keys (foldl mergeSingleResult (mergeSingleResult base r) rs)"
    by (rule Cons.IH)
  finally show ?case by simp
qed

lemma keys_mergeCollaborationResults:
  "keys base \<subseteq> keys (mergeCollaborationResults base rs)"
  by (simp add: mergeCollaborationResults_def keys_foldl_merge)

lemma keys_afterRules: "keys state \<subseteq> keys (afterRules env state rules)"
  by (simp add: afterRules_def keys_hook)

lemma settleRule_success:
  "fst (settleRule agents env state rule) =
     \<lparr>res_rule = rule, res_result = ruleResult agents env state rule,
      res_success = True, res_error = None\<rparr>"
  by (simp add: settleRule_def rule_never_throws ruleResult_def)

lemma wta_empty: "fst (executeWinnerTakeAllCollaboration agents env state []) = state"
  by (simp add: executeWinnerTakeAllCollaboration_def findFirstSuccessfulResult_def afterRules_def)

lemma wta_first:
  "fst (executeWinnerTakeAllCollaboration agents env state (rule # rules))
     = ruleResult agents env state rule"
  by (simp add: executeWinnerTakeAllCollaboration_def findFirstSuccessfulResult_def Let_def
        case_prod_beta settleRule_success)

lemma keys_wta:
  "keys state \<subseteq> keys (fst (executeWinnerTakeAllCollaboration agents env state rules))"
  by (cases rules) (simp_all add: wta_empty wta_first keys_ruleResult)

lemma keys_afm:
  "keys state \<subseteq> keys (fst (executeAllFinishMergeCollaboration agents env state rules))"
  using keys_afterRules [of state env rules]
    keys_mergeCollaborationResults [of "afterRules env state rules"]
  by (auto simp: executeAllFinishMergeCollaboration_def Let_def)

lemma keys_parallel:
  "keys state \<subseteq> keys (fst (executeParallelCollaboration agents env state rules))"
  using keys_afterRules [of state env rules]
    keys_mergeCollaborationResults [of "afterRules env state rules"]
  by (auto simp: executeParallelCollaboration_def Let_def)

lemma keys_strategy:
  "keys state \<subseteq> keys (fst (executeCollaborationStrategy agents env state rules strategy))"
  by (cases "es_type strategy")
     (simp_all add: executeCollaborationStrategy_def keys_sequential keys_parallel keys_wta keys_afm)

lemma keys_generic:
  "keys state \<subseteq> keys (fst (executeGenericCollaboration agents env state))"
proof (cases "cx_multiAgentRequest (gs_context state) = Some True")
  case True
  then show ?thesis by (simp add: executeGenericCollaboration_def)
next
  case False
  show ?thesis
  proof (cases "extractSharedData state")
    case None
    with False show ?thesis by (simp add: executeGenericCollaboration_def)
  next
    case (Some sharedData)
    obtain rules evals where a: "getApplicableRules sharedData state = (rules, evals)"
      by (cases "getApplicableRules sharedData state")
    obtain r calls where e: "executeCollaborationStrategy agents env state rules
        (determineExecutionStrategy rules state) = (r, calls)"
      by (cases "executeCollaborationStrategy agents env state rules
                   (determineExecutionStrategy rules state)")
    from keys_strategy [of state agents env rules "determineExecutionStrategy rules state"] e
    have "keys state \<subseteq> keys r" by simp
    with False Some a e show ?thesis
      by (simp add: executeGenericCollaboration_def)
  qed
qed

lemma keys_collaborationStage:
  "keys state \<subseteq> keys (fst (executeCollaborationStage agents env state))"
proof -
  have "keys state \<subseteq> keys (saveIfReportCandidateOnce env state)" by (rule keys_hook)
  also have "\<dots> \<subseteq> keys (fst (executeGenericCollaboration agents env (saveIfReportCandidateOnce env state)))"
    by (rule keys_generic)
  finally have k: "keys state \<subseteq> keys (fst (executeGenericCollaboration agents env
                                          (saveIfReportCandidateOnce env state)))" .
  obtain r calls where
    g: "executeGenericCollaboration agents env (saveIfReportCandidateOnce env state) = (r, calls)"
    by (cases "executeGenericCollaboration agents env (saveIfReportCandidateOnce env state)")
  with k show ?thesis
    by (simp add: executeCollaborationStage_def Let_def)
qed

text \<open>
  Claim C8.  No stage transition removes a key of \<open>context.sharedData\<close>: the router
  stage, the handler stage and the collaboration stage, every execution strategy and
  every merge return a state whose keys include the keys of the state they were given;
  the state built for a rule and the merge of one result have exactly the union of the
  keys of their parts.
\<close>

theorem sharedData_keys_grow:
  "keys state \<subseteq> keys (fst (executeRouterStage agents env state)) \<and>
   keys state \<subseteq> keys (fst (executeSpecializedAgentStage agents env state)) \<and>
   keys (createCollaborationState state rule)
     = keys state \<union> dom (orEmpty (extractSharedData state)) \<and>
   keys (mergeSingleResult state result)
     = keys state \<union> keys result \<union> dom (orEmpty (extractSharedData result)) \<and>
   keys state \<subseteq> keys (mergeCollaborationResults state results) \<and>
   keys state \<subseteq> keys (fst (executeCollaborationStrategy agents env state rules strategy)) \<and>
   keys state \<subseteq> keys (fst (executeCollaborationStage agents env state)) \<and>
   keys state \<subseteq> keys (saveIfReportCandidateOnce env state)"
  by (simp add: keys_executeRouterStage keys_executeSpecializedAgentStage
        keys_createCollaborationState keys_mergeSingleResult keys_mergeCollaborationResults
        keys_strategy keys_collaborationStage keys_hook)

lemma sleep_candidate: "matchesReportCriteria ''remind me to sleep early''"
  by code_simp

lemma seven_no_candidate: "\<not> matchesReportCriteria ''remind me at 7pm''"
  by code_simp

lemma multi_ingests: "ingests demoGraphEnv (multiState ''remind me to sleep early'')"
  by (simp add: ingests_def multiState_def createInitialState_def demoInput_def
        isReportCandidate_def demoGraphEnv_def sleep_candidate sharedDataOf_def truthyAt_def)

lemma multi_not_ingests: "\<not> ingests demoGraphEnv (multiState ''remind me at 7pm'')"
  by (simp add: ingests_def multiState_def createInitialState_def demoInput_def
        isReportCandidate_def demoGraphEnv_def seven_no_candidate)

lemma generic_evaluates:
  assumes "cx_multiAgentRequest (gs_context state) \<noteq> Some True"
    and "extractSharedData state = Some sd"
  shows "set (map (\<lambda>rule. Evaluated (cr_name rule)) getCollaborationRules)
           \<subseteq> set (snd (executeGenericCollaboration agents env state))"
proof -
  obtain rules evals where a: "getApplicableRules sd state = (rules, evals)"
    by (cases "getApplicableRules sd state")
  then have ev: "evals = map (\<lambda>rule. Evaluated (cr_name rule)) getCollaborationRules"
    by (simp add: getApplicableRules_def)
  obtain r calls where e: "executeCollaborationStrategy agents env state rules
      (determineExecutionStrategy rules state) = (r, calls)"
    by (cases "executeCollaborationStrategy agents env state rules
                 (determineExecutionStrategy rules state)")
  from assms a e ev show ?thesis
    by (auto simp: executeGenericCollaboration_def)
qed

lemma collaboration_stage_skipped:
  assumes "cx_multiAgentRequest (gs_context state) = Some True"
  shows "executeCollaborationStage agents env state =
           ((if ingests env state then markIngested state else state)
              \<lparr>gs_timeline := Some
                 ((case gs_timeline state of None \<Rightarrow> [] | Some t \<Rightarrow> t)
                  @ [createTimelineEntry ''collaboration'' (ge_elapsed env ''collaboration'')
                       None None None])\<rparr>,
            [])"
proof -
  let ?s = "saveIfReportCandidateOnce env state"
  from assms have "cx_multiAgentRequest (gs_context ?s) = Some True" by (simp add: hook_multi)
  then have g: "executeGenericCollaboration agents env ?s = (?s, [])"
    by (simp add: executeGenericCollaboration_def)
  have t: "gs_timeline ?s = gs_timeline state" by (rule hook_timeline)
  show ?thesis
    unfolding executeCollaborationStage_def Let_def g
    by (simp add: t hook_cases [symmetric] split: option.splits)
qed

text \<open>
  Claim C9, as the spec states it, fails in one respect: the collaboration stage runs
  the ingestion hook before it looks at \<open>multiAgentRequest\<close>, and the hook writes its
  marker into the shared data of a message that is a report candidate.  The stage then
  returns a state that differs from its input in more than the timeline.
\<close>

theorem skip_marks_counterexample:
  "cx_multiAgentRequest (gs_context (multiState ''remind me to sleep early'')) = Some True \<and>
   sharedDataOf (multiState ''remind me to sleep early'') ''__reportIngested'' = None \<and>
   sharedDataOf (fst (executeCollaborationStage (initializeAgents demoGraphEnv) demoGraphEnv
                        (multiState ''remind me to sleep early''))) ''__reportIngested''
     = Some (JBool True)"
proof -
  have m: "cx_multiAgentRequest (gs_context (multiState ''remind me to sleep early'')) = Some True"
    by (simp add: multiState_def)
  have n: "sharedDataOf (multiState ''remind me to sleep early'') ''__reportIngested'' = None"
    by (simp add: multiState_def sharedDataOf_def createInitialState_def)
  have "sharedDataOf (fst (executeCollaborationStage (initializeAgents demoGraphEnv) demoGraphEnv
                        (multiState ''remind me to sleep early''))) ''__reportIngested''
     = Some (JBool True)"
    by (simp add: collaboration_stage_skipped [OF m] multi_ingests markIngested_def sharedDataOf_def
          spread_def)
  with m n show ?thesis by simp
qed

text \<open>
  Claim C9, amended.  When \<open>context.multiAgentRequest\<close> is true in the state that
  enters the collaboration stage, no rule predicate is evaluated and no handler is
  invoked (the list of calls is empty), and the stage returns its input state with the
  timeline entry appended and, when the ingestion hook fires, with the marker
  \<^verbatim>\<open>__reportIngested\<close> added to the shared data; nothing else changes.
\<close>

theorem multi_agent_skip:
  assumes "cx_multiAgentRequest (gs_context state) = Some True"
  shows "executeCollaborationStage agents env state =
           ((if ingests env state then markIngested state else state)
              \<lparr>gs_timeline := Some
                 ((case gs_timeline state of None \<Rightarrow> [] | Some t \<Rightarrow> t)
                  @ [createTimelineEntry ''collaboration'' (ge_elapsed env ''collaboration'')
                       None None None])\<rparr>,
            [])"
  using assms by (rule collaboration_stage_skipped)

text \<open>
  The amended claim on a message that is no report candidate: the state comes back with
  the timeline entry alone.  Without the flag, the same state has its rules evaluated.
\<close>

theorem multi_agent_skip_witness:
  "executeCollaborationStage (initializeAgents demoGraphEnv) demoGraphEnv
     (multiState ''remind me at 7pm'')
   = ((multiState ''remind me at 7pm'')
        \<lparr>gs_timeline := Some [createTimelineEntry ''collaboration'' 1 None None None]\<rparr>, []) \<and>
   snd (executeCollaborationStage (initializeAgents demoGraphEnv) demoGraphEnv
          ((multiState ''remind me at 7pm'')
             \<lparr>gs_context := (gs_context (multiState ''remind me at 7pm''))
                \<lparr>cx_multiAgentRequest := None\<rparr>\<rparr>)) \<noteq> []"
proof -
  have m: "cx_multiAgentRequest (gs_context (multiState ''remind me at 7pm'')) = Some True"
    by (simp add: multiState_def)
  have t: "gs_timeline (multiState ''remind me at 7pm'') = None"
    by (simp add: multiState_def createInitialState_def)
  have e: "ge_elapsed demoGraphEnv ''collaboration'' = 1" by (simp add: demoGraphEnv_def)
  let ?single = "(multiState ''remind me at 7pm'')
             \<lparr>gs_context := (gs_context (multiState ''remind me at 7pm''))
                \<lparr>cx_multiAgentRequest := None\<rparr>\<rparr>"
  have ni: "\<not> ingests demoGraphEnv ?single"
    by (simp add: ingests_def multiState_def createInitialState_def demoInput_def
          isReportCandidate_def demoGraphEnv_def seven_no_candidate)
  have h: "saveIfReportCandidateOnce demoGraphEnv ?single = ?single"
    by (simp add: hook_cases ni)
  have "Evaluated ''notification-to-appointment''
          \<in> set (snd (executeGenericCollaboration (initializeAgents demoGraphEnv)
                         demoGraphEnv ?single))"
    using generic_evaluates [of ?single "[''notificationSchedule'' \<mapsto> JBool True]"
            "initializeAgents demoGraphEnv" demoGraphEnv]
    by (simp add: multiState_def extractSharedData_def getCollaborationRules_def
          createNotificationToAppointmentRule_def)
  then have c: "snd (executeCollaborationStage (initializeAgents demoGraphEnv) demoGraphEnv
          ?single) \<noteq> []"
    by (auto simp: executeCollaborationStage_def Let_def h split: prod.splits)
  from multi_agent_skip [OF m, of "initializeAgents demoGraphEnv" demoGraphEnv]
    multi_not_ingests t e c
  show ?thesis by simp
qed

section \<open>Orchestration graph: errors\<close>

lemma specialized_boundary:
  assumes "handlerFailsOn agents state"
  shows "\<exists>e. fst (executeSpecializedAgent agents env state)
           = state\<lparr>gs_error := Some (''Agent execution error in ''
                        @ orStr (gs_currentAgent state) ''chat'' @ '': '' @ errString e),
                   gs_currentAgent := Some ''error_handler''\<rparr>"
proof (cases "agents (orStr (gs_currentAgent state) ''chat'')")
  case None
  then show ?thesis
    by (auto simp: executeSpecializedAgent_def handleSpecializedAgentError_def Let_def)
next
  case (Some handler)
  let ?input = "graphInput state (cx_intent (gs_context state)) (cx_entities (gs_context state))"
  obtain r calls where h: "handler ?input = (r, calls)" by (cases "handler ?input")
  with assms Some obtain e where "r = Inl e"
    by (cases r) (auto simp: handlerFailsOn_def agentFails_def)
  with Some h show ?thesis
    by (auto simp: executeSpecializedAgent_def handleSpecializedAgentError_def Let_def)
qed

lemma specialized_ok:
  assumes "\<not> handlerFailsOn agents state"
  shows "gs_error (fst (executeSpecializedAgent agents env state)) = gs_error state \<and>
         gs_currentAgent (fst (executeSpecializedAgent agents env state)) = gs_currentAgent state"
  using assms
  by (auto simp: executeSpecializedAgent_def handlerFailsOn_def agentFails_def Let_def
           split: option.splits prod.splits sum.splits)

lemma router_boundary:
  assumes "agentFails agents ''router'' (graphInput state None None)"
  shows "\<exists>e. fst (executeRouter agents env state)
           = state\<lparr>gs_error := Some (''Router error: '' @ errString e),
                   gs_currentAgent := Some ''error_handler''\<rparr>"
proof (cases "agents ''router''")
  case None
  then show ?thesis by (auto simp: executeRouter_def handleRouterError_def)
next
  case (Some router)
  let ?input = "graphInput state None None"
  obtain r calls where h: "router ?input = (r, calls)" by (cases "router ?input")
  with assms Some obtain e where "r = Inl e"
    by (cases r) (auto simp: agentFails_def)
  with Some h show ?thesis
    by (auto simp: executeRouter_def handleRouterError_def Let_def)
qed

lemma router_ok:
  assumes "\<not> agentFails agents ''router'' (graphInput state None None)"
  shows "gs_error (fst (executeRouter agents env state)) = gs_error state"
  using assms
  by (auto simp: executeRouter_def agentFails_def Let_def
           split: option.splits prod.splits sum.splits)

lemma hook_frame:
  "gs_error (saveIfReportCandidateOnce env s) = gs_error s"
  "gs_currentAgent (saveIfReportCandidateOnce env s) = gs_currentAgent s"
  "gs_finalOutput (saveIfReportCandidateOnce env s) = gs_finalOutput s"
  by (simp_all add: hook_cases markIngested_def)

lemma routerStage_fields:
  "gs_error (fst (executeRouterStage agents env s)) = gs_error (fst (executeRouter agents env s))"
  "gs_currentAgent (fst (executeRouterStage agents env s))
     = gs_currentAgent (fst (executeRouter agents env s))"
  "gs_finalOutput (fst (executeRouterStage agents env s))
     = gs_finalOutput (fst (executeRouter agents env s))"
  by (simp_all add: executeRouterStage_def Let_def hook_frame split: prod.splits)

lemma agentStage_fields:
  "gs_error (fst (executeSpecializedAgentStage agents env s))
     = gs_error (fst (executeSpecializedAgent agents env s))"
  "gs_currentAgent (fst (executeSpecializedAgentStage agents env s))
     = gs_currentAgent (fst (executeSpecializedAgent agents env s))"
  "gs_finalOutput (fst (executeSpecializedAgentStage agents env s))
     = gs_finalOutput (fst (executeSpecializedAgent agents env s))"
  by (simp_all add: executeSpecializedAgentStage_def Let_def split: prod.splits)

lemma errString_nonempty: "errString e \<noteq> []"
  by (simp add: errString_def)

lemma stages_never_throw: "\<not> isl (runStages agents env initialState)"
  by (simp add: runStages_def split: prod.splits)

lemma process_router_fails:
  assumes "routerFails agents input"
  shows "truthyError (fst (processWith agents env input)) \<and>
         gs_currentAgent (fst (processWith agents env input)) = Some ''error_handler'' \<and>
         gs_finalOutput (fst (processWith agents env input)) = None"
proof -
  let ?i = "createInitialState input"
  from assms obtain e where
    r: "fst (executeRouter agents env ?i)
          = ?i\<lparr>gs_error := Some (''Router error: '' @ errString e),
                gs_currentAgent := Some ''error_handler''\<rparr>"
    using router_boundary [of agents ?i env] by (auto simp: routerFails_def)
  obtain rs c1 where st: "executeRouterStage agents env ?i = (rs, c1)"
    by (cases "executeRouterStage agents env ?i")
  from routerStage_fields [of agents env ?i] st r
  have f: "gs_error rs = Some (''Router error: '' @ errString e)"
      "gs_currentAgent rs = Some ''error_handler''" "gs_finalOutput rs = None"
    by (simp_all add: createInitialState_def)
  then have "truthyError rs" by (simp add: truthyError_def truthyStr_def)
  with st f show ?thesis
    by (simp add: processWith_def runStages_def Let_def)
qed

lemma process_handler_fails:
  assumes ok: "\<not> routerFails agents input"
    and fails: "handlerFailsOn agents (routedState agents env input)"
  shows "truthyError (fst (processWith agents env input)) \<and>
         gs_currentAgent (fst (processWith agents env input)) = Some ''error_handler'' \<and>
         gs_finalOutput (fst (processWith agents env input))
           = gs_finalOutput (routedState agents env input)"
proof -
  let ?i = "createInitialState input"
  obtain rs c1 where st: "executeRouterStage agents env ?i = (rs, c1)"
    by (cases "executeRouterStage agents env ?i")
  then have rs: "routedState agents env input = rs" by (simp add: routedState_def)
  from ok have "gs_error (fst (executeRouter agents env ?i)) = gs_error ?i"
    using router_ok [of agents ?i env] by (simp add: routerFails_def)
  with routerStage_fields(1) [of agents env ?i] st have "gs_error rs = None"
    by (simp add: createInitialState_def)
  then have noerr: "\<not> truthyError rs" by (simp add: truthyError_def truthyStr_def)
  obtain ar c2 where at: "executeSpecializedAgentStage agents env rs = (ar, c2)"
    by (cases "executeSpecializedAgentStage agents env rs")
  from fails rs obtain e where
    a: "fst (executeSpecializedAgent agents env rs)
          = rs\<lparr>gs_error := Some (''Agent execution error in ''
                     @ orStr (gs_currentAgent rs) ''chat'' @ '': '' @ errString e),
                gs_currentAgent := Some ''error_handler''\<rparr>"
    using specialized_boundary [of agents rs env] by auto
  from agentStage_fields [of agents env rs] at a
  have f: "truthyError ar" "gs_currentAgent ar = Some ''error_handler''"
      "gs_finalOutput ar = gs_finalOutput rs"
    by (simp_all add: truthyError_def truthyStr_def)
  with st noerr at rs show ?thesis
    by (simp add: processWith_def runStages_def Let_def)
qed

lemma guard_blocks:
  assumes intent: "\<exists>rest. cl_intent (classify (in_message input)) = ''appointment.'' @ rest"
    and token: "in_metadata input = None \<or>
       (\<exists>md. in_metadata input = Some md \<and>
             md_googleAccessToken md \<in> {None, Some [], Some ''test-token''})"
  shows "RouterAgent_process classify registry input = (blockedOutput, [])"
proof -
  from intent have m: "rx_test rx_appointment (cl_intent (classify (in_message input)))"
    by (auto simp: rx_appointment_prefix)
  from token have l: "lacksToken (in_metadata input)"
    by (auto simp: lacksToken_def truthyStr_def)
  from m l show ?thesis
    by (simp add: RouterAgent_process_def Let_def firstBlock_def BLOCK_RULES_def
          appointmentGuard_def blockedOutput_def orStr_def)
qed

lemma booking_no_candidate: "\<not> matchesReportCriteria ''book a GP appointment tomorrow 3pm''"
  by code_simp

lemma booking_router:
  "routerAgent demoGraphEnv (graphInput (createInitialState (bookingInput None)) None None)
     = (Inr blockedOutput, [])"
proof -
  let ?in = "graphInput (createInitialState (bookingInput None)) None None"
  have i: "\<exists>rest. cl_intent (demoClassify (in_message ?in)) = ''appointment.'' @ rest"
    by (rule exI [of _ "''book''"])
       (simp add: graphInput_def createInitialState_def bookingInput_def demo_intent)
  have t: "in_metadata ?in = None \<or>
       (\<exists>md. in_metadata ?in = Some md \<and>
             md_googleAccessToken md \<in> {None, Some [], Some ''test-token''})"
    by (simp add: graphInput_def createInitialState_def bookingInput_def)
  from i t guard_blocks [of demoClassify ?in "routerRegistry demoGraphEnv"]
  have "RouterAgent_process demoClassify (routerRegistry demoGraphEnv) ?in = (blockedOutput, [])"
    by blast
  then show ?thesis
    by (simp add: routerAgent_def demoGraphEnv_def)
qed

lemma booking_routed:
  "fst (executeRouter (initializeAgents demoGraphEnv) demoGraphEnv
          (createInitialState (bookingInput None)))
   = (createInitialState (bookingInput None))
       \<lparr>gs_currentAgent := Some ''none'',
        gs_context := (gs_context (createInitialState (bookingInput None)))
          \<lparr>cx_intent := Some ''blocked'', cx_entities := None, cx_multiAgentRequest := None,
           cx_additionalAgents := None\<rparr>,
        gs_messages := [createRouterMessage demoGraphEnv blockedOutput
                          ''book a GP appointment tomorrow 3pm''],
        gs_finalOutput := Some blockedOutput\<rparr>"
  by (simp add: executeRouter_def initializeAgents_def booking_router Let_def orStr_def)
     (simp add: blockedOutput_def emptyOutput_def createInitialState_def bookingInput_def)

text \<open>
  Claim C6, as the spec states it, fails.  A blocked booking request is routed to
  \<^verbatim>\<open>none\<close>; the handler stage throws \<^verbatim>\<open>Agent not found: none\<close>, which
  \<open>executeSpecializedAgent\<close> catches: \<open>error\<close> and the sentinel are set, and
  \<open>finalOutput\<close> stays the router's answer, which is no apologetic reply and carries
  no action at all.
\<close>

theorem blocked_request_counterexample:
  "gs_error (fst (process demoGraphEnv (bookingInput None)))
     = Some ''Agent execution error in none: Error: Agent not found: none'' \<and>
   gs_currentAgent (fst (process demoGraphEnv (bookingInput None))) = Some ''error_handler'' \<and>
   gs_finalOutput (fst (process demoGraphEnv (bookingInput None))) = Some blockedOutput \<and>
   out_actions blockedOutput = None \<and>
   out_reply blockedOutput = ''Google Calendar access is required to manage appointments.''"
proof -
  let ?i = "createInitialState (bookingInput None)"
  let ?agents = "initializeAgents demoGraphEnv"
  obtain rs c1 where st: "executeRouterStage ?agents demoGraphEnv ?i = (rs, c1)"
    by (cases "executeRouterStage ?agents demoGraphEnv ?i")
  from routerStage_fields [of ?agents demoGraphEnv ?i] st booking_routed
  have f: "gs_error rs = None" "gs_currentAgent rs = Some ''none''"
      "gs_finalOutput rs = Some blockedOutput"
    by (simp_all add: createInitialState_def)
  have none: "?agents ''none'' = None"
    by (simp add: initializeAgents_def routerRegistry_def)
  have a: "fst (executeSpecializedAgent ?agents demoGraphEnv rs)
     = rs\<lparr>gs_error := Some ''Agent execution error in none: Error: Agent not found: none'',
           gs_currentAgent := Some ''error_handler''\<rparr>"
    using f none
    by (simp add: executeSpecializedAgent_def handleSpecializedAgentError_def Let_def
          orStr_def errString_def)
  obtain ar c2 where at: "executeSpecializedAgentStage ?agents demoGraphEnv rs = (ar, c2)"
    by (cases "executeSpecializedAgentStage ?agents demoGraphEnv rs")
  from agentStage_fields [of ?agents demoGraphEnv rs] at a f
  have g: "gs_error ar = Some ''Agent execution error in none: Error: Agent not found: none''"
      "gs_currentAgent ar = Some ''error_handler''" "gs_finalOutput ar = Some blockedOutput"
    by simp_all
  then have "truthyError ar" by (simp add: truthyError_def truthyStr_def)
  moreover from f have "\<not> truthyError rs" by (simp add: truthyError_def truthyStr_def)
  ultimately have "fst (process demoGraphEnv (bookingInput None)) = ar"
    using st at by (simp add: process_def processWith_def runStages_def Let_def)
  with g show ?thesis by (simp add: blockedOutput_def emptyOutput_def)
qed

text \<open>
  Claim C6, amended.  \<open>process\<close> never throws: the stages always return a state.  An
  error thrown while the router or a handler runs is caught at the boundary of that
  call, which returns the state it was given with \<open>error\<close> set and \<open>currentAgent\<close>
  set to the sentinel \<^verbatim>\<open>error_handler\<close>, and leaves \<open>finalOutput\<close> as it was
  (absent after a router failure, the router's output after a handler failure);
  \<open>process\<close> then returns that state.  Only \<open>handleProcessingError\<close>, the handler
  of \<open>process\<close> itself, substitutes the fixed apologetic reply; its action is
  \<^verbatim>\<open>{type: 'error', status: 'failed'}\<close> without payload, and it does not set the
  sentinel.
\<close>

theorem stage_errors:
  "\<not> isl (runStages agents env (createInitialState input)) \<and>
   (routerFails agents input \<longrightarrow>
      truthyError (fst (processWith agents env input)) \<and>
      gs_currentAgent (fst (processWith agents env input)) = Some ''error_handler'' \<and>
      gs_finalOutput (fst (processWith agents env input)) = None) \<and>
   (\<not> routerFails agents input \<and> handlerFailsOn agents (routedState agents env input) \<longrightarrow>
      truthyError (fst (processWith agents env input)) \<and>
      gs_currentAgent (fst (processWith agents env input)) = Some ''error_handler'' \<and>
      gs_finalOutput (fst (processWith agents env input))
        = gs_finalOutput (routedState agents env input)) \<and>
   (handlerFailsOn agents state \<longrightarrow>
      truthyError (fst (executeSpecializedAgent agents env state)) \<and>
      gs_currentAgent (fst (executeSpecializedAgent agents env state)) = Some ''error_handler'' \<and>
      gs_finalOutput (fst (executeSpecializedAgent agents env state)) = gs_finalOutput state) \<and>
   gs_error (handleProcessingError e state) = Some (''Processing error: '' @ errString e) \<and>
   gs_currentAgent (handleProcessingError e state) = gs_currentAgent state \<and>
   gs_finalOutput (handleProcessingError e state) = Some apologeticOutput \<and>
   out_actions apologeticOutput
     = Some [\<lparr>act_type = ''error'', act_status = Some Failed, act_payload = None\<rparr>]"
proof (intro conjI impI)
  show "\<not> isl (runStages agents env (createInitialState input))"
    by (rule stages_never_throw)
next
  assume h: "handlerFailsOn agents state"
  from specialized_boundary [OF h, of env] obtain e' where
    a: "fst (executeSpecializedAgent agents env state)
          = state\<lparr>gs_error := Some (''Agent execution error in ''
                       @ orStr (gs_currentAgent state) ''chat'' @ '': '' @ errString e'),
                  gs_currentAgent := Some ''error_handler''\<rparr>" by blast
  show "truthyError (fst (executeSpecializedAgent agents env state))"
    by (simp add: a truthyError_def truthyStr_def)
  show "gs_currentAgent (fst (executeSpecializedAgent agents env state)) = Some ''error_handler''"
    by (simp add: a)
  show "gs_finalOutput (fst (executeSpecializedAgent agents env state)) = gs_finalOutput state"
    by (simp add: a)
qed (simp_all add: process_router_fails process_handler_fails handleProcessingError_def
       apologeticOutput_def emptyOutput_def)

text \<open>
  The amended claim on a graph without a router, and on the blocked booking request.
\<close>

theorem stage_errors_witness:
  "truthyError (fst (processWith Map.empty demoGraphEnv (bookingInput None))) \<and>
   gs_currentAgent (fst (processWith Map.empty demoGraphEnv (bookingInput None)))
     = Some ''error_handler'' \<and>
   gs_finalOutput (fst (processWith Map.empty demoGraphEnv (bookingInput None))) = None \<and>
   truthyError (fst (processWith (initializeAgents demoGraphEnv) demoGraphEnv
                       (bookingInput None))) \<and>
   gs_currentAgent (fst (processWith (initializeAgents demoGraphEnv) demoGraphEnv
                           (bookingInput None))) = Some ''error_handler'' \<and>
   gs_finalOutput (fst (processWith (initializeAgents demoGraphEnv) demoGraphEnv
                          (bookingInput None))) = Some blockedOutput"
proof -
  let ?agents = "initializeAgents demoGraphEnv"
  let ?i = "createInitialState (bookingInput None)"
  have rf: "routerFails Map.empty (bookingInput None)"
    by (simp add: routerFails_def agentFails_def)
  have rok: "\<not> routerFails ?agents (bookingInput None)"
    by (simp add: routerFails_def agentFails_def initializeAgents_def booking_router)
  have cur: "gs_currentAgent (routedState ?agents demoGraphEnv (bookingInput None)) = Some ''none''"
    using routerStage_fields(2) [of ?agents demoGraphEnv ?i]
    by (simp add: routedState_def booking_routed)
  have out: "gs_finalOutput (routedState ?agents demoGraphEnv (bookingInput None))
               = Some blockedOutput"
    using routerStage_fields(3) [of ?agents demoGraphEnv ?i]
    by (simp add: routedState_def booking_routed)
  have hf: "handlerFailsOn ?agents (routedState ?agents demoGraphEnv (bookingInput None))"
    by (simp add: handlerFailsOn_def agentFails_def cur orStr_def initializeAgents_def
          routerRegistry_def)
  from rf rok hf out
    stage_errors [of Map.empty demoGraphEnv "bookingInput None"]
    stage_errors [of ?agents demoGraphEnv "bookingInput None"]
  show ?thesis by simp
qed

section \<open>Winner-take-all: properties\<close>



end
